theory Spec2Isabelle
  imports Complex_Main
begin

section \<open>Snake game: the simulation core of main.cpp\<close>

text \<open>
  The embedding follows \<^verbatim>\<open>src/main.cpp\<close>: the global variables become the fields of
  one record, the part of the rendering loop that updates the game (lines 214-320)
  becomes \<open>tick\<close>, and \<open>processInput\<close> and \<open>spawnFood\<close> keep their names. Rendering, window
  and texture code does not touch the game state and is left out.

  Numbers. The source stores coordinates, times and the tick interval in \<^verbatim>\<open>float\<close>.
  They are modelled as \<open>real\<close>. On the values the game reaches the two agree: the head
  starts at (400, 300) and moves in steps of 2.5, food sits on integer coordinates, so
  every coordinate is a multiple of 1/2 below 1024 and every squared distance a multiple
  of 1/4 below \<open>2^21\<close>, all of them exact in binary32; a comparison of a correctly
  rounded square root with 2.5, 20 or 40 then has the outcome of the exact comparison.
  For the interval (0.012, 0.005, 0.5) the model is the idealised one.
  \<^verbatim>\<open>score\<close> and \<^verbatim>\<open>smallFoodEaten\<close> are C++ \<^verbatim>\<open>int\<close>; they are modelled as
  \<open>int\<close> (an overflow would need more than \<open>2^30\<close> eaten foods).

  \<^verbatim>\<open>rand()\<close> is the only source of nondeterminism. Its results are a parameter
  \<open>rand :: nat \<Rightarrow> nat\<close>, the value of the k-th call, and the state counts the calls made
  so far (\<open>rand_calls\<close>). The keys and the clock are arguments of each frame.
\<close>

subsection \<open>Constants and data (lines 30-81)\<close>

definition windowWIDTH :: real where "windowWIDTH = 800"

definition windowHEIGHT :: real where "windowHEIGHT = 600"

definition SQUARE_SIZE :: real where "SQUARE_SIZE = 20"

definition WALL_THICKNESS :: real where "WALL_THICKNESS = 60"

definition MOVE_STRIDE :: real where "MOVE_STRIDE = 5 / 2"

datatype Direction = UP | DOWN | LEFT | RIGHT

type_synonym vec2 = "real \<times> real"

record Square =
  position :: vec2
  direction :: Direction

record game =
  GAME_SPEED :: real
  game_speed_controller :: real
  score :: int
  bigFoodOnScreen :: bool
  smallFoodOnScreen :: bool
  smallFoodEaten :: int
  lastMoveTime :: real
  gameOver :: bool
  snake :: "Square list"
  smallFood :: Square
  bigFood :: Square
  currentDirection :: Direction
  nextDirection :: Direction
  spacePressed :: bool
  ctrlPressed :: bool
  rand_calls :: nat

text \<open>\<^verbatim>\<open>glm::distance\<close>: the Euclidean distance of two points.\<close>

definition distance :: "vec2 \<Rightarrow> vec2 \<Rightarrow> real" where
  "distance a b = sqrt ((fst a - fst b)\<^sup>2 + (snd a - snd b)\<^sup>2)"

subsection \<open>spawnFood (lines 545-583)\<close>

text \<open>
  The inner \<^verbatim>\<open>for\<close> loop over the segments: the candidate is rejected at the first
  segment closer than \<open>SQUARE_SIZE\<close>.
\<close>

fun validPosition :: "Square list \<Rightarrow> vec2 \<Rightarrow> bool" where
  "validPosition [] newPosition = True"
| "validPosition (segment # rest) newPosition =
     (if distance (position segment) newPosition < SQUARE_SIZE then False
      else validPosition rest newPosition)"

definition spawnBase :: int where
  "spawnBase = \<lfloor>WALL_THICKNESS + 40\<rfloor>"

definition spawnRangeX :: int where
  "spawnRangeX = \<lfloor>windowWIDTH\<rfloor> - 2 * \<lfloor>WALL_THICKNESS + 2 * SQUARE_SIZE\<rfloor> + 1"

definition spawnRangeY :: int where
  "spawnRangeY = \<lfloor>windowHEIGHT\<rfloor> - 2 * \<lfloor>WALL_THICKNESS + 2 * SQUARE_SIZE\<rfloor> + 1"

text \<open>
  The \<^verbatim>\<open>do ... while (!validPosition)\<close> loop. It has no retry bound, so it is a partial
  function: \<open>None\<close> is the loop that never finds a valid position. The result is the
  position found and the number of \<^verbatim>\<open>rand()\<close> calls made up to then.
\<close>

partial_function (option) spawnLoop :: "(nat \<Rightarrow> nat) \<Rightarrow> Square list \<Rightarrow> nat \<Rightarrow> (vec2 \<times> nat) option" where
  "spawnLoop rand sn k =
     (let newX = spawnBase + int (rand k) mod spawnRangeX;
          newY = spawnBase + int (rand (k + 1)) mod spawnRangeY;
          newPosition = (real_of_int newX, real_of_int newY)
      in if validPosition sn newPosition then Some (newPosition, k + 2)
         else spawnLoop rand sn (k + 2))"

definition spawnFood :: "(nat \<Rightarrow> nat) \<Rightarrow> bool \<Rightarrow> game \<Rightarrow> game option" where
  "spawnFood rand isBigFood g =
     (case spawnLoop rand (snake g) (rand_calls g) of
        None \<Rightarrow> None
      | Some (newPosition, k) \<Rightarrow>
          Some (if isBigFood
                then g\<lparr>bigFood := (bigFood g)\<lparr>position := newPosition\<rparr>, rand_calls := k\<rparr>
                else g\<lparr>smallFood := (smallFood g)\<lparr>position := newPosition\<rparr>, rand_calls := k\<rparr>))"

text \<open>The half side of the drawn square (setupSnakeBuffers, lines 445-452).\<close>

definition halfSquareSize :: "bool \<Rightarrow> real" where
  "halfSquareSize isBigFood = (if isBigFood then SQUARE_SIZE else SQUARE_SIZE / 2)"

subsection \<open>The tick (lines 214-320)\<close>

text \<open>
  Lines 222-226: for \<open>i\<close> from \<open>size - 1\<close> down to 1, segment \<open>i\<close> takes the position and
  the direction of segment \<open>i - 1\<close>. \<open>shiftLoop i\<close> runs the iterations \<open>i + 1\<close> (written
  \<open>Suc i\<close>) and below.
\<close>

fun shiftLoop :: "nat \<Rightarrow> Square list \<Rightarrow> Square list" where
  "shiftLoop 0 sn = sn"
| "shiftLoop (Suc i) sn =
     shiftLoop i (sn[Suc i := (sn ! Suc i)\<lparr>position := position (sn ! i),
                                             direction := direction (sn ! i)\<rparr>])"

text \<open>Lines 233-254: the head takes the committed direction and moves one stride.\<close>

fun moveHead :: "Direction \<Rightarrow> Square \<Rightarrow> Square" where
  "moveHead UP head = head\<lparr>direction := UP, position := (fst (position head), snd (position head) + MOVE_STRIDE)\<rparr>"
| "moveHead DOWN head = head\<lparr>direction := DOWN, position := (fst (position head), snd (position head) - MOVE_STRIDE)\<rparr>"
| "moveHead LEFT head = head\<lparr>direction := LEFT, position := (fst (position head) - MOVE_STRIDE, snd (position head))\<rparr>"
| "moveHead RIGHT head = head\<lparr>direction := RIGHT, position := (fst (position head) + MOVE_STRIDE, snd (position head))\<rparr>"

text \<open>
  The movement of one tick. The source reads \<^verbatim>\<open>snake[0]\<close> without a check; the snake
  is never empty there (see \<open>reachable_snake_nonempty\<close>), and \<open>tick\<close> below gives no
  result on an empty snake.
\<close>

definition advance :: "Direction \<Rightarrow> Square list \<Rightarrow> Square list" where
  "advance d sn = (let sn1 = shiftLoop (length sn - 1) sn in sn1[0 := moveHead d (sn1 ! 0)])"

text \<open>Lines 257-263: the wall test on the head.\<close>

definition hitsWall :: "vec2 \<Rightarrow> bool" where
  "hitsWall p \<longleftrightarrow>
     fst p < 0 + WALL_THICKNESS \<or>
     fst p \<ge> windowWIDTH - WALL_THICKNESS \<or>
     snd p < 0 + WALL_THICKNESS - 17 \<or>
     snd p \<ge> windowHEIGHT - WALL_THICKNESS"

text \<open>Lines 271-277: the head against every other segment, stopping at the first hit.\<close>

fun hitsBody :: "vec2 \<Rightarrow> Square list \<Rightarrow> bool" where
  "hitsBody p [] = False"
| "hitsBody p (segment # rest) =
     (if distance p (position segment) < MOVE_STRIDE then True else hitsBody p rest)"

definition checkCollisions :: "game \<Rightarrow> game" where
  "checkCollisions g =
     (let head = hd (snake g);
          g1 = (if hitsWall (position head) then g\<lparr>gameOver := True\<rparr> else g)
      in if hitsBody (position head) (tl (snake g1)) then g1\<lparr>gameOver := True\<rparr> else g1)"

text \<open>Lines 282-285 and 308-311: \<open>n\<close> copies of the last segment are pushed back.\<close>

fun pushBack :: "nat \<Rightarrow> Square \<Rightarrow> Square list \<Rightarrow> Square list" where
  "pushBack 0 newSegment sn = sn"
| "pushBack (Suc n) newSegment sn = pushBack n newSegment (sn @ [newSegment])"

definition grow :: "nat \<Rightarrow> Square list \<Rightarrow> Square list" where
  "grow n sn = pushBack n (last sn) sn"

text \<open>
  Line 280 and line 306: the conditions of the two food branches. Both read the head
  through the reference \<^verbatim>\<open>head\<close> to \<^verbatim>\<open>snake[0]\<close> taken at line 233; the model reads the
  first segment of the snake. At line 280 the two are the same. At line 306 they are the
  same unless the \<^verbatim>\<open>push_back\<close>s of lines 283-285 have reallocated the vector in this
  tick and the large food has just been put on screen: the reference then dangles, and
  what the source reads is undefined. Of the ticks evaluated below, the one that ends in
  \<open>swallowed\<close> eats the large food in the tick of the third small food, and there the
  vector has room for the new segments; the one that ends in \<open>afterTick3\<close> reallocates,
  the large food lies more than 40 from the first segment and is not eaten.
\<close>

definition smallFoodHit :: "game \<Rightarrow> bool" where
  "smallFoodHit g \<longleftrightarrow>
     smallFoodOnScreen g \<and> distance (position (hd (snake g))) (position (smallFood g)) < SQUARE_SIZE"

definition bigFoodHit :: "game \<Rightarrow> bool" where
  "bigFoodHit g \<longleftrightarrow>
     bigFoodOnScreen g \<and> distance (position (hd (snake g))) (position (bigFood g)) < SQUARE_SIZE * 2"

text \<open>Lines 280-303.\<close>

definition smallFoodCheck :: "(nat \<Rightarrow> nat) \<Rightarrow> game \<Rightarrow> game option" where
  "smallFoodCheck rand g =
     (if smallFoodHit g then
        (let g1 = g\<lparr>snake := grow 25 (snake g)\<rparr>;
             g2 = g1\<lparr>score := score g1 + 1\<rparr>;
             g3 = g2\<lparr>smallFoodEaten := smallFoodEaten g2 + 1\<rparr>
         in if smallFoodEaten g3 = 3 then
              (case spawnFood rand True g3 of
                 None \<Rightarrow> None
               | Some g4 \<Rightarrow> Some (g4\<lparr>bigFoodOnScreen := True, smallFoodOnScreen := False,
                                     smallFoodEaten := 0\<rparr>))
            else
              (case spawnFood rand False g3 of
                 None \<Rightarrow> None
               | Some g4 \<Rightarrow> Some (g4\<lparr>smallFoodOnScreen := True\<rparr>)))
      else Some g)"

text \<open>Lines 306-319.\<close>

definition bigFoodCheck :: "(nat \<Rightarrow> nat) \<Rightarrow> game \<Rightarrow> game option" where
  "bigFoodCheck rand g =
     (if bigFoodHit g then
        (let g1 = g\<lparr>snake := grow 75 (snake g)\<rparr>;
             g2 = g1\<lparr>score := score g1 + 2\<rparr>
         in case spawnFood rand False g2 of
              None \<Rightarrow> None
            | Some g3 \<Rightarrow> Some (g3\<lparr>smallFoodOnScreen := True, bigFoodOnScreen := False\<rparr>))
      else Some g)"

text \<open>
  The state after the movement and the two collision tests (lines 216-277), on which
  the food checks run.
\<close>

definition moved :: "real \<Rightarrow> game \<Rightarrow> game" where
  "moved currentTime g =
     (let g1 = g\<lparr>currentDirection := nextDirection g, lastMoveTime := currentTime\<rparr>;
          g2 = g1\<lparr>snake := advance (currentDirection g1) (snake g1)\<rparr>
      in checkCollisions g2)"

definition tick :: "(nat \<Rightarrow> nat) \<Rightarrow> real \<Rightarrow> game \<Rightarrow> game option" where
  "tick rand currentTime g =
     (if snake g = [] then None
      else case smallFoodCheck rand (moved currentTime g) of
             None \<Rightarrow> None
           | Some g1 \<Rightarrow> bigFoodCheck rand g1)"

subsection \<open>processInput (lines 378-434)\<close>

text \<open>The state of the six keys read by \<^verbatim>\<open>glfwGetKey\<close>: \<open>True\<close> is GLFW_PRESS.\<close>

record keys =
  KEY_SPACE :: bool
  KEY_LEFT_CONTROL :: bool
  KEY_UP :: bool
  KEY_DOWN :: bool
  KEY_LEFT :: bool
  KEY_RIGHT :: bool

definition inputSpace :: "keys \<Rightarrow> game \<Rightarrow> game" where
  "inputSpace ks g =
     (if KEY_SPACE ks \<and> \<not> spacePressed g then
        (let g1 = g\<lparr>spacePressed := True\<rparr>
         in if GAME_SPEED g1 > 3 / 1000 then g1\<lparr>GAME_SPEED := GAME_SPEED g1 - 5 / 1000\<rparr> else g1)
      else if \<not> KEY_SPACE ks then
        (let g1 = g\<lparr>spacePressed := False\<rparr>
         in if \<not> ctrlPressed g1 then g1\<lparr>GAME_SPEED := game_speed_controller g1\<rparr> else g1)
      else g)"

definition inputCtrl :: "keys \<Rightarrow> game \<Rightarrow> game" where
  "inputCtrl ks g =
     (if KEY_LEFT_CONTROL ks \<and> \<not> ctrlPressed g then
        g\<lparr>ctrlPressed := True, GAME_SPEED := 1 / 2\<rparr>
      else if \<not> KEY_LEFT_CONTROL ks then
        (let g1 = g\<lparr>ctrlPressed := False\<rparr>
         in if \<not> spacePressed g1 then g1\<lparr>GAME_SPEED := game_speed_controller g1\<rparr> else g1)
      else g)"

definition inputDirection :: "keys \<Rightarrow> game \<Rightarrow> game" where
  "inputDirection ks g =
     (if KEY_UP ks \<and> currentDirection g \<noteq> DOWN then g\<lparr>nextDirection := UP\<rparr>
      else if KEY_DOWN ks \<and> currentDirection g \<noteq> UP then g\<lparr>nextDirection := DOWN\<rparr>
      else if KEY_LEFT ks \<and> currentDirection g \<noteq> RIGHT then g\<lparr>nextDirection := LEFT\<rparr>
      else if KEY_RIGHT ks \<and> currentDirection g \<noteq> LEFT then g\<lparr>nextDirection := RIGHT\<rparr>
      else g)"

definition processInput :: "keys \<Rightarrow> game \<Rightarrow> game" where
  "processInput ks g = inputDirection ks (inputCtrl ks (inputSpace ks g))"

subsection \<open>The frame loop (lines 194-363)\<close>

text \<open>
  One iteration of the rendering loop up to the test of \<^verbatim>\<open>gameOver\<close> at line 355:
  the input is processed, and the tick runs when the interval has passed and the game is
  not over. \<open>currentTime\<close> is the value of \<^verbatim>\<open>glfwGetTime\<close>.
\<close>

definition frame :: "(nat \<Rightarrow> nat) \<Rightarrow> keys \<Rightarrow> real \<Rightarrow> game \<Rightarrow> game option" where
  "frame rand ks currentTime g =
     (let g1 = processInput ks g;
          deltaTime = currentTime - lastMoveTime g1
      in if deltaTime \<ge> GAME_SPEED g1 \<and> \<not> gameOver g1 then tick rand currentTime g1
         else Some g1)"

text \<open>Lines 355-360: when the game is over the score is printed and the loop is left.\<close>

definition report :: "game \<Rightarrow> int option" where
  "report g = (if gameOver g then Some (score g) else None)"

text \<open>
  The loop over a finite list of frames (the keys and the time of each); it stops at the
  first frame that ends with \<^verbatim>\<open>gameOver\<close>. The result is the last state and what was
  printed.
\<close>

fun run :: "(nat \<Rightarrow> nat) \<Rightarrow> (keys \<times> real) list \<Rightarrow> game \<Rightarrow> (game \<times> int option) option" where
  "run rand [] g = Some (g, None)"
| "run rand ((ks, currentTime) # frames) g =
     (case frame rand ks currentTime g of
        None \<Rightarrow> None
      | Some g1 \<Rightarrow> if gameOver g1 then Some (g1, report g1) else run rand frames g1)"

text \<open>
  The globals as initialised at lines 31-81 (\<open>smallFood\<close> and \<open>bigFood\<close> are
  zero-initialised), with the first segment pushed at line 196.
\<close>

definition globals :: game where
  "globals = \<lparr>GAME_SPEED = 12 / 1000, game_speed_controller = 12 / 1000, score = 0,
     bigFoodOnScreen = False, smallFoodOnScreen = True, smallFoodEaten = 0,
     lastMoveTime = 0, gameOver = False,
     snake = [\<lparr>position = (windowWIDTH / 2, windowHEIGHT / 2), direction = RIGHT\<rparr>],
     smallFood = \<lparr>position = (0, 0), direction = UP\<rparr>,
     bigFood = \<lparr>position = (0, 0), direction = UP\<rparr>,
     currentDirection = RIGHT, nextDirection = RIGHT,
     spacePressed = False, ctrlPressed = False, rand_calls = 0\<rparr>"

text \<open>Line 198: the first small food is spawned before the loop starts.\<close>

definition initial :: "(nat \<Rightarrow> nat) \<Rightarrow> game option" where
  "initial rand = spawnFood rand False globals"

text \<open>
  The states of a game: the initial one and every state a frame leads to from a state in
  which the game is not over (after a frame that ends with \<^verbatim>\<open>gameOver\<close> the loop is
  left).
\<close>

inductive reachable :: "(nat \<Rightarrow> nat) \<Rightarrow> game \<Rightarrow> bool" for rand :: "nat \<Rightarrow> nat" where
  reachable_initial: "initial rand = Some g \<Longrightarrow> reachable rand g"
| reachable_frame: "reachable rand g \<Longrightarrow> \<not> gameOver g \<Longrightarrow> frame rand ks currentTime g = Some g1 \<Longrightarrow> reachable rand g1"

subsection \<open>Notions used in the statements\<close>

text \<open>The position of the food that \<open>spawnFood isBigFood\<close> writes.\<close>

definition spawned :: "bool \<Rightarrow> game \<Rightarrow> vec2" where
  "spawned isBigFood g = position (if isBigFood then bigFood g else smallFood g)"

text \<open>The position sampled by the draws \<open>k\<close> and \<open>k + 1\<close> of \<^verbatim>\<open>rand()\<close> (lines 553-556).\<close>

definition candidate :: "(nat \<Rightarrow> nat) \<Rightarrow> nat \<Rightarrow> vec2" where
  "candidate rand k = (real_of_int (spawnBase + int (rand k) mod spawnRangeX),
                       real_of_int (spawnBase + int (rand (k + 1)) mod spawnRangeY))"

text \<open>A \<^verbatim>\<open>rand()\<close> whose results repeat a given list, for concrete games.\<close>

definition repeating :: "nat list \<Rightarrow> nat \<Rightarrow> nat" where
  "repeating xs k = xs ! (k mod length xs)"

text \<open>The exact reverse of a direction.\<close>

fun opposite :: "Direction \<Rightarrow> Direction" where
  "opposite UP = DOWN"
| "opposite DOWN = UP"
| "opposite LEFT = RIGHT"
| "opposite RIGHT = LEFT"

text \<open>Of the four arrow keys, the one of direction \<open>d\<close> is pressed and no other.\<close>

definition arrowOnly :: "Direction \<Rightarrow> keys \<Rightarrow> bool" where
  "arrowOnly d ks \<longleftrightarrow>
     KEY_UP ks = (d = UP) \<and> KEY_DOWN ks = (d = DOWN) \<and>
     KEY_LEFT ks = (d = LEFT) \<and> KEY_RIGHT ks = (d = RIGHT)"

text \<open>No key is pressed; exactly one key is pressed.\<close>

definition noKeys :: keys where
  "noKeys = \<lparr>KEY_SPACE = False, KEY_LEFT_CONTROL = False, KEY_UP = False, KEY_DOWN = False,
     KEY_LEFT = False, KEY_RIGHT = False\<rparr>"

definition pressUp :: keys where
  "pressUp = noKeys\<lparr>KEY_UP := True\<rparr>"

definition pressDown :: keys where
  "pressDown = noKeys\<lparr>KEY_DOWN := True\<rparr>"

definition pressLeft :: keys where
  "pressLeft = noKeys\<lparr>KEY_LEFT := True\<rparr>"

definition pressRight :: keys where
  "pressRight = noKeys\<lparr>KEY_RIGHT := True\<rparr>"

definition pressSpace :: keys where
  "pressSpace = noKeys\<lparr>KEY_SPACE := True\<rparr>"

text \<open>
  The square in which \<open>spawnFood\<close> puts a food (lines 553-554), and the states in which
  the foods on screen lie in it.
\<close>

definition inSpawnBox :: "vec2 \<Rightarrow> bool" where
  "inSpawnBox p \<longleftrightarrow> 100 \<le> fst p \<and> fst p \<le> 700 \<and> 100 \<le> snd p \<and> snd p \<le> 500"

definition foodsInBox :: "game \<Rightarrow> bool" where
  "foodsInBox g \<longleftrightarrow>
     (smallFoodOnScreen g \<longrightarrow> inSpawnBox (position (smallFood g))) \<and>
     (bigFoodOnScreen g \<longrightarrow> inSpawnBox (position (bigFood g)))"

subsection \<open>A concrete game\<close>

text \<open>
  \<^verbatim>\<open>rand()\<close> puts the first small food at (420, 300), 20 ahead of the head, the next
  ones at (423, 300) and (425, 300), then a food at (377, 272) and one at (100, 100).
  \<open>fresh\<close> is the state after line 198, and \<open>afterTick1\<close> the state after the first tick, at
  time 1: the head has moved to (402.5, 300) and eaten the first food.
\<close>

definition demoRand :: "nat \<Rightarrow> nat" where
  "demoRand = repeating [320, 200, 323, 200, 325, 200, 277, 172, 0, 0]"

definition segAt :: "real \<Rightarrow> Square" where
  "segAt x = \<lparr>position = (x, 300), direction = RIGHT\<rparr>"

definition fresh :: game where
  "fresh = globals\<lparr>smallFood := \<lparr>position = (420, 300), direction = UP\<rparr>, rand_calls := 2\<rparr>"

definition afterTick1 :: game where
  "afterTick1 = fresh\<lparr>lastMoveTime := 1, snake := replicate 26 (segAt (805 / 2)),
     score := 1, smallFoodEaten := 1, smallFood := \<lparr>position = (423, 300), direction = UP\<rparr>,
     rand_calls := 4\<rparr>"

text \<open>
  If the player keeps going right, the tick at time 2 eats the second small food
  (\<open>afterTick2\<close>) and the tick at time 3 the third (\<open>afterTick3\<close>): the large food appears
  at (377, 272), more than 40 behind the head at (407.5, 300). The player then turns up
  (\<open>rising\<close>) and left (\<open>leftward\<close>) and presses the down arrow (\<open>diving\<close>). The tick at
  time 6 brings the head to (405, 300), onto the fifth segment of the snake and for the
  first time less than 40 from the large food: \<open>struck\<close> is the state after the
  collision tests, \<open>lastBite\<close> the state at the end of the tick.
\<close>

definition afterTick2 :: game where
  "afterTick2 = afterTick1\<lparr>lastMoveTime := 2, snake := segAt 405 # replicate 50 (segAt (805 / 2)),
     score := 2, smallFoodEaten := 2, smallFood := \<lparr>position = (425, 300), direction = UP\<rparr>,
     rand_calls := 6\<rparr>"

definition afterTick3 :: game where
  "afterTick3 = afterTick2\<lparr>lastMoveTime := 3,
     snake := segAt (815 / 2) # segAt 405 # replicate 74 (segAt (805 / 2)),
     score := 3, bigFood := \<lparr>position = (377, 272), direction = UP\<rparr>, rand_calls := 8,
     bigFoodOnScreen := True, smallFoodOnScreen := False, smallFoodEaten := 0\<rparr>"

definition rising :: game where
  "rising = afterTick3\<lparr>lastMoveTime := 4, currentDirection := UP, nextDirection := UP,
     snake := \<lparr>position = (815 / 2, 605 / 2), direction = UP\<rparr> #
              segAt (815 / 2) # segAt 405 # replicate 73 (segAt (805 / 2))\<rparr>"

definition leftward :: game where
  "leftward = afterTick3\<lparr>lastMoveTime := 5, currentDirection := LEFT, nextDirection := LEFT,
     snake := \<lparr>position = (405, 605 / 2), direction = LEFT\<rparr> #
              \<lparr>position = (815 / 2, 605 / 2), direction = UP\<rparr> #
              segAt (815 / 2) # segAt 405 # replicate 72 (segAt (805 / 2))\<rparr>"

definition diving :: game where
  "diving = leftward\<lparr>nextDirection := DOWN\<rparr>"

definition struck :: game where
  "struck = diving\<lparr>lastMoveTime := 6, currentDirection := DOWN, gameOver := True,
     snake := \<lparr>position = (405, 300), direction = DOWN\<rparr> #
              \<lparr>position = (405, 605 / 2), direction = LEFT\<rparr> #
              \<lparr>position = (815 / 2, 605 / 2), direction = UP\<rparr> #
              segAt (815 / 2) # segAt 405 # replicate 71 (segAt (805 / 2))\<rparr>"

definition lastBite :: game where
  "lastBite = diving\<lparr>lastMoveTime := 6, currentDirection := DOWN, gameOver := True,
     snake := \<lparr>position = (405, 300), direction = DOWN\<rparr> #
              \<lparr>position = (405, 605 / 2), direction = LEFT\<rparr> #
              \<lparr>position = (815 / 2, 605 / 2), direction = UP\<rparr> #
              segAt (815 / 2) # segAt 405 # replicate 146 (segAt (805 / 2)),
     score := 5, smallFood := \<lparr>position = (100, 100), direction = UP\<rparr>, rand_calls := 10,
     smallFoodOnScreen := True, bigFoodOnScreen := False\<rparr>"

text \<open>
  If instead, from \<open>afterTick1\<close>, the player turns up, left and down, one tick each
  (\<open>climbing\<close>, \<open>turnedLeft\<close>, \<open>descended\<close>), and then presses the right arrow, the tick at
  time 5 starts in \<open>coiled\<close> and ends in \<open>crashed\<close>: the head is back on (402.5, 300), where
  the rest of the snake still lies.
\<close>

definition climbing :: game where
  "climbing = afterTick1\<lparr>lastMoveTime := 2, currentDirection := UP, nextDirection := UP,
     snake := \<lparr>position = (805 / 2, 605 / 2), direction = UP\<rparr> #
              replicate 25 (segAt (805 / 2))\<rparr>"

definition turnedLeft :: game where
  "turnedLeft = afterTick1\<lparr>lastMoveTime := 3, currentDirection := LEFT, nextDirection := LEFT,
     snake := \<lparr>position = (400, 605 / 2), direction = LEFT\<rparr> #
              \<lparr>position = (805 / 2, 605 / 2), direction = UP\<rparr> #
              replicate 24 (segAt (805 / 2))\<rparr>"

definition descended :: game where
  "descended = afterTick1\<lparr>lastMoveTime := 4, currentDirection := DOWN, nextDirection := DOWN,
     snake := \<lparr>position = (400, 300), direction = DOWN\<rparr> #
              \<lparr>position = (400, 605 / 2), direction = LEFT\<rparr> #
              \<lparr>position = (805 / 2, 605 / 2), direction = UP\<rparr> #
              replicate 23 (segAt (805 / 2))\<rparr>"

definition coiled :: game where
  "coiled = descended\<lparr>nextDirection := RIGHT\<rparr>"

definition crashed :: game where
  "crashed = coiled\<lparr>lastMoveTime := 5, currentDirection := RIGHT, gameOver := True,
     snake := segAt (805 / 2) #
              \<lparr>position = (400, 300), direction = DOWN\<rparr> #
              \<lparr>position = (400, 605 / 2), direction = LEFT\<rparr> #
              \<lparr>position = (805 / 2, 605 / 2), direction = UP\<rparr> #
              replicate 22 (segAt (805 / 2))\<rparr>"

text \<open>
  \<open>turningUp\<close> is \<open>fresh\<close> after a frame, before the first tick, in which the up arrow was
  pressed: the turn is pending. \<open>turnedUp\<close> is the state after the tick at time 1 from
  there.
\<close>

definition turningUp :: game where
  "turningUp = fresh\<lparr>nextDirection := UP\<rparr>"

definition turnedUp :: game where
  "turnedUp = turningUp\<lparr>currentDirection := UP, lastMoveTime := 1,
     snake := [\<lparr>position = (400, 605 / 2), direction = UP\<rparr>]\<rparr>"

subsection \<open>A long snake before its third small food\<close>

text \<open>
  The snake has run straight to the right from the start and has eaten two large and
  eight small foods: 351 segments, of which the first 100 trail the head at (650, 300) in
  steps of 2.5 and the other 251 still lie where they were pushed, at (402.5, 300). The
  score is 12, two small foods of the current round are eaten, and the small food lies
  at (670, 300), 20 ahead. \<^verbatim>\<open>rand()\<close> will give the positions (680, 300) and (100, 100).
  \<open>bitten\<close> is the state after the small-food check of the tick at time 101, \<open>swallowed\<close>
  the state after the tick. A vector that has grown to 351 elements by \<^verbatim>\<open>push_back\<close>
  alone has room for the 25 new segments, whether it grows by doubling (capacity 512) or
  by half (capacity 474): in this tick the reference \<^verbatim>\<open>head\<close> stays valid up to line 306.
\<close>

definition trail :: "Square list" where
  "trail = map (\<lambda>i. segAt (650 - 5 / 2 * real i)) [0..<100] @ replicate 251 (segAt (805 / 2))"

definition bugRand :: "nat \<Rightarrow> nat" where
  "bugRand = repeating [580, 200, 0, 0]"

definition thirdBite :: game where
  "thirdBite = globals\<lparr>lastMoveTime := 100, score := 12, smallFoodEaten := 2, snake := trail,
     smallFood := \<lparr>position = (670, 300), direction = UP\<rparr>,
     bigFood := \<lparr>position = (555, 300), direction = UP\<rparr>, rand_calls := 32\<rparr>"

definition bitten :: game where
  "bitten = thirdBite\<lparr>lastMoveTime := 101, snake := grow 25 (segAt (1305 / 2) # butlast trail),
     score := 13, bigFood := \<lparr>position = (680, 300), direction = UP\<rparr>, rand_calls := 34,
     bigFoodOnScreen := True, smallFoodOnScreen := False, smallFoodEaten := 0\<rparr>"

definition swallowed :: game where
  "swallowed = bitten\<lparr>snake := grow 75 (snake bitten), score := 15,
     smallFood := \<lparr>position = (100, 100), direction = UP\<rparr>, rand_calls := 36,
     smallFoodOnScreen := True, bigFoodOnScreen := False\<rparr>"

section \<open>Properties\<close>

subsection \<open>Distance and constants\<close>

lemmas game_consts = SQUARE_SIZE_def MOVE_STRIDE_def WALL_THICKNESS_def windowWIDTH_def windowHEIGHT_def

lemma distance_less_iff: "0 \<le> r \<Longrightarrow> distance a b < r \<longleftrightarrow> (fst a - fst b)\<^sup>2 + (snd a - snd b)\<^sup>2 < r\<^sup>2"
  unfolding distance_def
  by (metis real_sqrt_less_iff real_sqrt_abs abs_of_nonneg)

lemma distance_less_eval:
  "0 \<le> r \<Longrightarrow> distance a b < r \<longleftrightarrow>
     (fst a - fst b) * (fst a - fst b) + (snd a - snd b) * (snd a - snd b) < r * r"
  by (simp add: distance_less_iff power2_eq_square)

lemma abs_le_square:
  assumes "0 \<le> r" "r \<le> \<bar>d\<bar>"
  shows "r * r \<le> d * (d::real)"
proof -
  from assms have "r * r \<le> \<bar>d\<bar> * \<bar>d\<bar>" by (intro mult_mono) simp_all
  then show ?thesis by simp
qed

lemma far_in_x:
  assumes "0 \<le> r" "r \<le> \<bar>fst a - fst b\<bar>"
  shows "\<not> distance a b < r"
proof -
  have "r * r \<le> (fst a - fst b) * (fst a - fst b)" using assms by (rule abs_le_square)
  moreover have "0 \<le> (snd a - snd b) * (snd a - snd b)" by simp
  ultimately have "\<not> (fst a - fst b) * (fst a - fst b) + (snd a - snd b) * (snd a - snd b) < r * r"
    by linarith
  then show ?thesis using assms(1) by (simp add: distance_less_eval)
qed

lemma far_in_y:
  assumes "0 \<le> r" "r \<le> \<bar>snd a - snd b\<bar>"
  shows "\<not> distance a b < r"
proof -
  have "r * r \<le> (snd a - snd b) * (snd a - snd b)" using assms by (rule abs_le_square)
  moreover have "0 \<le> (fst a - fst b) * (fst a - fst b)" by simp
  ultimately have "\<not> (fst a - fst b) * (fst a - fst b) + (snd a - snd b) * (snd a - snd b) < r * r"
    by linarith
  then show ?thesis using assms(1) by (simp add: distance_less_eval)
qed

subsection \<open>Movement\<close>

lemma shiftLoop_length: "length (shiftLoop i sn) = length sn"
  by (induction i arbitrary: sn) auto

lemma shiftLoop_nth:
  "i < length sn \<Longrightarrow> j < length sn \<Longrightarrow>
   shiftLoop i sn ! j = (if 1 \<le> j \<and> j \<le> i then sn ! (j - 1) else sn ! j)"
proof (induction i arbitrary: sn j)
  case 0
  then show ?case by simp
next
  case (Suc i)
  let ?sn = "sn[Suc i := (sn ! Suc i)\<lparr>position := position (sn ! i), direction := direction (sn ! i)\<rparr>]"
  have upd: "(sn ! Suc i)\<lparr>position := position (sn ! i), direction := direction (sn ! i)\<rparr> = sn ! i"
    by simp
  from Suc.prems have "i < length ?sn" "j < length ?sn" by simp_all
  then have "shiftLoop i ?sn ! j = (if 1 \<le> j \<and> j \<le> i then ?sn ! (j - 1) else ?sn ! j)"
    by (rule Suc.IH)
  with Suc.prems show ?case
    by (auto simp: upd nth_list_update)
qed

lemma advance_length: "length (advance d sn) = length sn"
  by (simp add: advance_def Let_def shiftLoop_length)

lemma advance_nth_body:
  assumes "1 \<le> i" "i < length sn"
  shows "advance d sn ! i = sn ! (i - 1)"
proof -
  have "length sn - 1 < length sn" using assms by simp
  then have "shiftLoop (length sn - 1) sn ! i = sn ! (i - 1)"
    using assms by (simp add: shiftLoop_nth)
  with assms show ?thesis
    by (simp add: advance_def Let_def)
qed

lemma advance_nth_head:
  assumes "sn \<noteq> []"
  shows "advance d sn ! 0 = moveHead d (sn ! 0)"
proof -
  have "length sn - 1 < length sn" "0 < length sn" using assms by simp_all
  then have "shiftLoop (length sn - 1) sn ! 0 = sn ! 0"
    by (simp add: shiftLoop_nth)
  with assms show ?thesis
    by (simp add: advance_def Let_def shiftLoop_length)
qed

lemma advance_eq: 
  assumes "sn \<noteq> []"
  shows "advance d sn = moveHead d (hd sn) # butlast sn"
proof (rule nth_equalityI)
  show "length (advance d sn) = length (moveHead d (hd sn) # butlast sn)"
    using assms by (simp add: advance_length)
next
  fix i assume "i < length (advance d sn)"
  then have i: "i < length sn" by (simp add: advance_length)
  show "advance d sn ! i = (moveHead d (hd sn) # butlast sn) ! i"
  proof (cases i)
    case 0
    with assms show ?thesis by (simp add: advance_nth_head hd_conv_nth)
  next
    case (Suc j)
    with i show ?thesis by (simp add: advance_nth_body nth_butlast)
  qed
qed

lemma moveHead_direction: "direction (moveHead d h) = d"
  by (cases d) simp_all

lemma moveHead_distance: "distance (position (moveHead d h)) (position h) = MOVE_STRIDE"
  by (cases d) (simp_all add: distance_def MOVE_STRIDE_def)

text \<open>
  Claim C6. For every snake of length at least 1, the movement of a tick leaves the number
  of segments unchanged, gives every segment \<open>i \<ge> 1\<close> the position and direction that
  segment \<open>i - 1\<close> had before the tick, sets the head's direction to the committed
  direction and moves the head by exactly 2.5 along it. (In a tick the committed
  direction is the pending one: the snake of \<open>moved t g\<close> is
  \<open>advance (nextDirection g) (snake g)\<close>, see \<open>moved_frame\<close>.)
\<close>

theorem advance_shifts_body_and_steps_head:
  assumes "sn \<noteq> []"
  shows "length (advance d sn) = length sn \<and>
         (\<forall>i. 1 \<le> i \<and> i < length sn \<longrightarrow>
              position (advance d sn ! i) = position (sn ! (i - 1)) \<and>
              direction (advance d sn ! i) = direction (sn ! (i - 1))) \<and>
         direction (advance d sn ! 0) = d \<and>
         distance (position (advance d sn ! 0)) (position (sn ! 0)) = 5 / 2 \<and>
         position (advance d sn ! 0) =
           (case d of UP \<Rightarrow> (fst (position (sn ! 0)), snd (position (sn ! 0)) + 5 / 2)
                    | DOWN \<Rightarrow> (fst (position (sn ! 0)), snd (position (sn ! 0)) - 5 / 2)
                    | LEFT \<Rightarrow> (fst (position (sn ! 0)) - 5 / 2, snd (position (sn ! 0)))
                    | RIGHT \<Rightarrow> (fst (position (sn ! 0)) + 5 / 2, snd (position (sn ! 0))))"
proof -
  have body: "\<forall>i. 1 \<le> i \<and> i < length sn \<longrightarrow>
              position (advance d sn ! i) = position (sn ! (i - 1)) \<and>
              direction (advance d sn ! i) = direction (sn ! (i - 1))"
    by (simp add: advance_nth_body)
  have head: "advance d sn ! 0 = moveHead d (sn ! 0)"
    using assms by (rule advance_nth_head)
  have dist: "distance (position (advance d sn ! 0)) (position (sn ! 0)) = 5 / 2"
    by (simp add: head moveHead_distance MOVE_STRIDE_def)
  have pos: "position (advance d sn ! 0) =
           (case d of UP \<Rightarrow> (fst (position (sn ! 0)), snd (position (sn ! 0)) + 5 / 2)
                    | DOWN \<Rightarrow> (fst (position (sn ! 0)), snd (position (sn ! 0)) - 5 / 2)
                    | LEFT \<Rightarrow> (fst (position (sn ! 0)) - 5 / 2, snd (position (sn ! 0)))
                    | RIGHT \<Rightarrow> (fst (position (sn ! 0)) + 5 / 2, snd (position (sn ! 0))))"
    using head by (cases d) (simp_all add: MOVE_STRIDE_def)
  show ?thesis
    using body dist pos by (simp add: advance_length head moveHead_direction)
qed

theorem advance_shifts_body_and_steps_head_witness:
  "[\<lparr>position = (400, 300), direction = RIGHT\<rparr>, \<lparr>position = (795 / 2, 300), direction = RIGHT\<rparr>] \<noteq> [] \<and>
   length (advance UP [\<lparr>position = (400, 300), direction = RIGHT\<rparr>,
                       \<lparr>position = (795 / 2, 300), direction = RIGHT\<rparr>]) = 2 \<and>
   position (advance UP [\<lparr>position = (400, 300), direction = RIGHT\<rparr>,
                         \<lparr>position = (795 / 2, 300), direction = RIGHT\<rparr>] ! 1) = (400, 300) \<and>
   direction (advance UP [\<lparr>position = (400, 300), direction = RIGHT\<rparr>,
                          \<lparr>position = (795 / 2, 300), direction = RIGHT\<rparr>] ! 1) = RIGHT \<and>
   position (advance UP [\<lparr>position = (400, 300), direction = RIGHT\<rparr>,
                         \<lparr>position = (795 / 2, 300), direction = RIGHT\<rparr>] ! 0) = (400, 605 / 2) \<and>
   direction (advance UP [\<lparr>position = (400, 300), direction = RIGHT\<rparr>,
                          \<lparr>position = (795 / 2, 300), direction = RIGHT\<rparr>] ! 0) = UP"
  using advance_shifts_body_and_steps_head
    [of "[\<lparr>position = (400, 300), direction = RIGHT\<rparr>, \<lparr>position = (795 / 2, 300), direction = RIGHT\<rparr>]" UP]
  by simp

subsection \<open>Growth\<close>

lemma pushBack_replicate: "pushBack n s sn = sn @ replicate n s"
  by (induction n arbitrary: sn) (auto simp: replicate_app_Cons_same)

lemma grow_eq: "grow n sn = sn @ replicate n (last sn)"
  by (simp add: grow_def pushBack_replicate)

lemma length_grow: "length (grow n sn) = length sn + n"
  by (simp add: grow_eq)

lemma hd_grow: "sn \<noteq> [] \<Longrightarrow> hd (grow n sn) = hd sn"
  by (simp add: grow_eq)

lemma set_grow: "sn \<noteq> [] \<Longrightarrow> set (grow n sn) = set sn"
  by (cases n) (auto simp: grow_eq)

lemma grow_grow: "sn \<noteq> [] \<Longrightarrow> grow m (grow n sn) = grow (n + m) sn"
  by (simp add: grow_eq replicate_add last_append last_replicate)

lemma butlast_replicate: "butlast (replicate n x) = replicate (n - 1) x"
proof (cases n)
  case 0
  then show ?thesis by simp
next
  case (Suc m)
  have "replicate (Suc m) x = replicate m x @ [x]"
    by (simp add: replicate_append_same)
  then show ?thesis using Suc by (simp del: replicate_Suc)
qed

text \<open>
  Claim C7. A growth by \<open>n\<close> (25 for the small food, 75 for the large food) adds exactly
  \<open>n\<close> segments, each a copy of the tail segment as it was before the growth, and
  changes no segment that was there before.
\<close>

theorem grow_appends_copies_of_tail:
  assumes "sn \<noteq> []"
  shows "length (grow n sn) = length sn + n \<and>
         (\<forall>i < length sn. grow n sn ! i = sn ! i) \<and>
         (\<forall>i. length sn \<le> i \<and> i < length sn + n \<longrightarrow>
              grow n sn ! i = sn ! (length sn - 1))"
  using assms by (auto simp: grow_eq nth_append last_conv_nth)

theorem grow_appends_copies_of_tail_witness:
  "[\<lparr>position = (400, 300), direction = RIGHT\<rparr>, \<lparr>position = (795 / 2, 300), direction = UP\<rparr>] \<noteq> [] \<and>
   length (grow 25 [\<lparr>position = (400, 300), direction = RIGHT\<rparr>, \<lparr>position = (795 / 2, 300), direction = UP\<rparr>]) = 27 \<and>
   grow 25 [\<lparr>position = (400, 300), direction = RIGHT\<rparr>, \<lparr>position = (795 / 2, 300), direction = UP\<rparr>] ! 0
     = \<lparr>position = (400, 300), direction = RIGHT\<rparr> \<and>
   grow 25 [\<lparr>position = (400, 300), direction = RIGHT\<rparr>, \<lparr>position = (795 / 2, 300), direction = UP\<rparr>] ! 1
     = \<lparr>position = (795 / 2, 300), direction = UP\<rparr> \<and>
   grow 25 [\<lparr>position = (400, 300), direction = RIGHT\<rparr>, \<lparr>position = (795 / 2, 300), direction = UP\<rparr>] ! 26
     = \<lparr>position = (795 / 2, 300), direction = UP\<rparr>"
  using grow_appends_copies_of_tail
    [of "[\<lparr>position = (400, 300), direction = RIGHT\<rparr>, \<lparr>position = (795 / 2, 300), direction = UP\<rparr>]" 25]
  by simp

subsection \<open>Spawning\<close>

lemma spawn_consts: "spawnBase = 100" "spawnRangeX = 601" "spawnRangeY = 401"
  by (simp_all add: spawnBase_def spawnRangeX_def spawnRangeY_def WALL_THICKNESS_def
      windowWIDTH_def windowHEIGHT_def SQUARE_SIZE_def)

lemma validPosition_iff:
  "validPosition sn p \<longleftrightarrow> (\<forall>s \<in> set sn. \<not> distance (position s) p < SQUARE_SIZE)"
  by (induction sn) auto

lemma validPosition_eval:
  "validPosition sn p \<longleftrightarrow>
     (\<forall>s \<in> set sn. \<not> (fst (position s) - fst p) * (fst (position s) - fst p) +
                       (snd (position s) - snd p) * (snd (position s) - snd p) < 400)"
  by (simp add: validPosition_iff distance_less_eval SQUARE_SIZE_def)

lemma validPosition_far_x:
  assumes "\<forall>s \<in> set sn. SQUARE_SIZE \<le> \<bar>fst (position s) - fst p\<bar>"
  shows "validPosition sn p"
proof -
  have nn: "0 \<le> SQUARE_SIZE" by (simp add: SQUARE_SIZE_def)
  have "\<forall>s \<in> set sn. \<not> distance (position s) p < SQUARE_SIZE"
  proof
    fix s assume "s \<in> set sn"
    with assms have "SQUARE_SIZE \<le> \<bar>fst (position s) - fst p\<bar>" by blast
    with nn show "\<not> distance (position s) p < SQUARE_SIZE" by (rule far_in_x)
  qed
  then show ?thesis by (simp only: validPosition_iff)
qed

lemma validPosition_far_y:
  assumes "\<forall>s \<in> set sn. SQUARE_SIZE \<le> \<bar>snd (position s) - snd p\<bar>"
  shows "validPosition sn p"
proof -
  have nn: "0 \<le> SQUARE_SIZE" by (simp add: SQUARE_SIZE_def)
  have "\<forall>s \<in> set sn. \<not> distance (position s) p < SQUARE_SIZE"
  proof
    fix s assume "s \<in> set sn"
    with assms have "SQUARE_SIZE \<le> \<bar>snd (position s) - snd p\<bar>" by blast
    with nn show "\<not> distance (position s) p < SQUARE_SIZE" by (rule far_in_y)
  qed
  then show ?thesis by (simp only: validPosition_iff)
qed

lemma spawnLoop_Some:
  assumes "spawnLoop rand sn k = Some r"
  shows "\<exists>j. k \<le> j \<and> snd r = j + 2 \<and>
             fst r = (real_of_int (spawnBase + int (rand j) mod spawnRangeX),
                      real_of_int (spawnBase + int (rand (j + 1)) mod spawnRangeY)) \<and>
             validPosition sn (fst r)"
proof (rule spawnLoop.raw_induct
    [where P = "\<lambda>rand sn k r. \<exists>j. k \<le> j \<and> snd r = j + 2 \<and>
             fst r = (real_of_int (spawnBase + int (rand j) mod spawnRangeX),
                      real_of_int (spawnBase + int (rand (j + 1)) mod spawnRangeY)) \<and>
             validPosition sn (fst r)", OF _ assms])
  fix spawnLoop' :: "(nat \<Rightarrow> nat) \<Rightarrow> Square list \<Rightarrow> nat \<Rightarrow> (vec2 \<times> nat) option"
  fix rand sn k r
  assume IH: "\<And>rand sn k r. spawnLoop' rand sn k = Some r \<Longrightarrow> \<exists>j. k \<le> j \<and> snd r = j + 2 \<and>
             fst r = (real_of_int (spawnBase + int (rand j) mod spawnRangeX),
                      real_of_int (spawnBase + int (rand (j + 1)) mod spawnRangeY)) \<and>
             validPosition sn (fst r)"
  assume step: "(let newX = spawnBase + int (rand k) mod spawnRangeX;
          newY = spawnBase + int (rand (k + 1)) mod spawnRangeY;
          newPosition = (real_of_int newX, real_of_int newY)
      in if validPosition sn newPosition then Some (newPosition, k + 2)
         else spawnLoop' rand sn (k + 2)) = Some r"
  show "\<exists>j. k \<le> j \<and> snd r = j + 2 \<and>
             fst r = (real_of_int (spawnBase + int (rand j) mod spawnRangeX),
                      real_of_int (spawnBase + int (rand (j + 1)) mod spawnRangeY)) \<and>
             validPosition sn (fst r)"
  proof (cases "validPosition sn (real_of_int (spawnBase + int (rand k) mod spawnRangeX),
                                  real_of_int (spawnBase + int (rand (k + 1)) mod spawnRangeY))")
    case True
    with step have "r = ((real_of_int (spawnBase + int (rand k) mod spawnRangeX),
                                  real_of_int (spawnBase + int (rand (k + 1)) mod spawnRangeY)), k + 2)"
      by (simp add: Let_def)
    with True show ?thesis by auto
  next
    case False
    with step have "spawnLoop' rand sn (k + 2) = Some r" by (simp add: Let_def)
    from IH[OF this] obtain j where "k + 2 \<le> j" and rest: "snd r = j + 2 \<and>
             fst r = (real_of_int (spawnBase + int (rand j) mod spawnRangeX),
                      real_of_int (spawnBase + int (rand (j + 1)) mod spawnRangeY)) \<and>
             validPosition sn (fst r)" by blast
    then have "k \<le> j" by simp
    with rest show ?thesis by blast
  qed
qed

lemma spawnLoop_position:
  assumes "spawnLoop rand sn k = Some (p, k')"
  shows "\<exists>nx ny :: int. p = (real_of_int nx, real_of_int ny) \<and>
           100 \<le> nx \<and> nx \<le> 700 \<and> 100 \<le> ny \<and> ny \<le> 500"
    and "\<forall>s \<in> set sn. distance (position s) p \<ge> SQUARE_SIZE"
proof -
  from spawnLoop_Some[OF assms] obtain j where
    p: "p = (real_of_int (100 + int (rand j) mod 601), real_of_int (100 + int (rand (j + 1)) mod 401))"
    and v: "validPosition sn p"
    by (auto simp: spawn_consts)
  have "100 \<le> 100 + int (rand j) mod 601" "100 + int (rand j) mod 601 \<le> 700"
       "100 \<le> 100 + int (rand (j + 1)) mod 401" "100 + int (rand (j + 1)) mod 401 \<le> 500"
    by simp_all
  with p show "\<exists>nx ny :: int. p = (real_of_int nx, real_of_int ny) \<and>
           100 \<le> nx \<and> nx \<le> 700 \<and> 100 \<le> ny \<and> ny \<le> 500"
    by blast
  from v show "\<forall>s \<in> set sn. distance (position s) p \<ge> SQUARE_SIZE"
    by (auto simp: validPosition_iff)
qed

lemma spawnFood_Some:
  assumes "spawnFood rand isBigFood g = Some g1"
  shows "\<exists>k. spawnLoop rand (snake g) (rand_calls g) = Some (spawned isBigFood g1, k)"
  using assms by (auto simp: spawnFood_def spawned_def split: option.splits if_splits)

lemma spawnLoop_unfold:
  "spawnLoop rand sn k =
     (if validPosition sn (candidate rand k) then Some (candidate rand k, k + 2)
      else spawnLoop rand sn (k + 2))"
  by (subst spawnLoop.simps) (simp add: Let_def candidate_def)

lemma spawnLoop_accept:
  "validPosition sn (candidate rand k) \<Longrightarrow> spawnLoop rand sn k = Some (candidate rand k, k + 2)"
  by (subst spawnLoop_unfold) simp

text \<open>The loop returns as soon as one of the positions it samples is accepted.\<close>

lemma spawnLoop_returns:
  "validPosition sn (candidate rand (k + 2 * n)) \<Longrightarrow> spawnLoop rand sn k \<noteq> None"
proof (induction n arbitrary: k)
  case 0
  then show ?case by (simp add: spawnLoop_accept)
next
  case (Suc n)
  then have "validPosition sn (candidate rand (k + 2 + 2 * n))" by (simp add: add.assoc)
  then have "spawnLoop rand sn (k + 2) \<noteq> None" by (rule Suc.IH)
  then show ?case by (subst spawnLoop_unfold) simp
qed

text \<open>
  Claim C8. Whenever the spawn returns, the position it gives the food has integer
  coordinates, lies inside the walls even when the food's half side is added (so the food
  does not clip a wall; in particular the point passes the wall test of the tick), and
  is at distance at least 20 from every segment of the snake.
\<close>

theorem spawnFood_inside_walls_and_off_snake:
  assumes "spawnFood rand isBigFood g = Some g1"
  shows "(\<exists>nx ny :: int. spawned isBigFood g1 = (real_of_int nx, real_of_int ny)) \<and>
         WALL_THICKNESS \<le> fst (spawned isBigFood g1) - halfSquareSize isBigFood \<and>
         fst (spawned isBigFood g1) + halfSquareSize isBigFood \<le> windowWIDTH - WALL_THICKNESS \<and>
         WALL_THICKNESS \<le> snd (spawned isBigFood g1) - halfSquareSize isBigFood \<and>
         snd (spawned isBigFood g1) + halfSquareSize isBigFood \<le> windowHEIGHT - WALL_THICKNESS \<and>
         \<not> hitsWall (spawned isBigFood g1) \<and>
         (\<forall>s \<in> set (snake g). distance (position s) (spawned isBigFood g1) \<ge> 20)"
proof -
  from spawnFood_Some[OF assms] obtain k where
    k: "spawnLoop rand (snake g) (rand_calls g) = Some (spawned isBigFood g1, k)" ..
  from spawnLoop_position(1)[OF k] obtain nx ny :: int where
    p: "spawned isBigFood g1 = (real_of_int nx, real_of_int ny)"
    and b: "100 \<le> nx" "nx \<le> 700" "100 \<le> ny" "ny \<le> 500"
    by blast
  have h: "halfSquareSize isBigFood \<le> 20" "0 \<le> halfSquareSize isBigFood"
    by (simp_all add: halfSquareSize_def SQUARE_SIZE_def)
  from b have rb: "100 \<le> real_of_int nx" "real_of_int nx \<le> 700"
                  "100 \<le> real_of_int ny" "real_of_int ny \<le> 500"
    by simp_all
  have walls: "WALL_THICKNESS \<le> fst (spawned isBigFood g1) - halfSquareSize isBigFood"
         "fst (spawned isBigFood g1) + halfSquareSize isBigFood \<le> windowWIDTH - WALL_THICKNESS"
         "WALL_THICKNESS \<le> snd (spawned isBigFood g1) - halfSquareSize isBigFood"
         "snd (spawned isBigFood g1) + halfSquareSize isBigFood \<le> windowHEIGHT - WALL_THICKNESS"
    using rb h by (simp_all add: p WALL_THICKNESS_def windowWIDTH_def windowHEIGHT_def)
  have nowall: "\<not> hitsWall (spawned isBigFood g1)"
    using rb by (simp add: p hitsWall_def WALL_THICKNESS_def windowWIDTH_def windowHEIGHT_def)
  have off: "\<forall>s \<in> set (snake g). distance (position s) (spawned isBigFood g1) \<ge> 20"
    using spawnLoop_position(2)[OF k] by (simp add: SQUARE_SIZE_def)
  from p walls nowall off show ?thesis by blast
qed

text \<open>At the start, a first candidate on the snake is rejected and the second one is taken.\<close>

lemma globals_spawn:
  "spawnFood (repeating [300, 200, 320, 200]) False globals
     = Some (globals\<lparr>smallFood := \<lparr>position = (420, 300), direction = UP\<rparr>, rand_calls := 4\<rparr>)"
  apply (simp add: spawnFood_def globals_def)
  apply (subst spawnLoop.simps)
  apply (simp add: spawn_consts repeating_def distance_less_iff SQUARE_SIZE_def windowWIDTH_def windowHEIGHT_def)
  apply (subst spawnLoop.simps)
  apply (simp add: spawn_consts repeating_def distance_less_iff SQUARE_SIZE_def windowWIDTH_def windowHEIGHT_def)
  done

theorem spawnFood_inside_walls_and_off_snake_witness:
  "spawnFood (repeating [300, 200, 320, 200]) False globals
     = Some (globals\<lparr>smallFood := \<lparr>position = (420, 300), direction = UP\<rparr>, rand_calls := 4\<rparr>) \<and>
   \<not> hitsWall (420, 300) \<and>
   snake globals = [\<lparr>position = (400, 300), direction = RIGHT\<rparr>] \<and>
   distance (400, 300) (420, 300) \<ge> 20"
  using spawnFood_inside_walls_and_off_snake [OF globals_spawn] globals_spawn
  by (simp add: spawned_def) (simp add: globals_def windowWIDTH_def windowHEIGHT_def)

text \<open>
  The loop need not return. With a \<^verbatim>\<open>rand()\<close> that yields 120500 at every call each
  candidate is (400, 300), the place of the head at the start, and the first spawn never
  ends.
\<close>

lemma never_iff:
  fixes f :: "((nat \<Rightarrow> nat) \<times> Square list) \<times> nat \<Rightarrow> (vec2 \<times> nat) option"
  shows "(\<forall>k. curry (curry f) rand sn k = None) \<longleftrightarrow>
         (\<forall>x y. f x = Some y \<longrightarrow> fst x \<noteq> (rand, sn))"
proof
  assume a: "\<forall>k. curry (curry f) rand sn k = None"
  show "\<forall>x y. f x = Some y \<longrightarrow> fst x \<noteq> (rand, sn)"
  proof (intro allI impI notI)
    fix x y assume fx: "f x = Some y" and x: "fst x = (rand, sn)"
    from x have "x = ((rand, sn), snd x)" by (metis prod.collapse)
    with fx have "f ((rand, sn), snd x) = Some y" by simp
    moreover from a have "f ((rand, sn), snd x) = None" by (simp add: curry_def)
    ultimately show False by simp
  qed
next
  assume b: "\<forall>x y. f x = Some y \<longrightarrow> fst x \<noteq> (rand, sn)"
  show "\<forall>k. curry (curry f) rand sn k = None"
  proof
    fix k
    have "f ((rand, sn), k) = None"
    proof (cases "f ((rand, sn), k)")
      case None
      then show ?thesis .
    next
      case (Some y)
      with b have "fst ((rand, sn), k) \<noteq> (rand, sn)" by blast
      then show ?thesis by simp
    qed
    then show "curry (curry f) rand sn k = None" by (simp add: curry_def)
  qed
qed

lemma adm_never:
  "option.admissible (\<lambda>f :: ((nat \<Rightarrow> nat) \<times> Square list) \<times> nat \<Rightarrow> (vec2 \<times> nat) option.
      \<forall>k. curry (curry f) rand sn k = None)"
  unfolding never_iff by (rule option_admissible)

lemma spawnLoop_never_all:
  assumes "\<forall>j. \<not> validPosition sn (candidate rand j)"
  shows "\<forall>k. spawnLoop rand sn k = None"
  using assms
  apply (intro spawnLoop.fixp_induct [where P = "\<lambda>f. \<forall>k. f rand sn k = None"])
    apply (rule adm_never)
   apply simp
  apply (simp add: Let_def candidate_def)
  done

lemma spawnLoop_never:
  "\<forall>j. \<not> validPosition sn (candidate rand j) \<Longrightarrow> spawnLoop rand sn k = None"
  using spawnLoop_never_all by blast

lemma stuck_candidate: "candidate (\<lambda>k. 120500) j = (400, 300)"
  by (simp add: candidate_def spawn_consts)

lemma spawnLoop_on_snake_never:
  "spawnLoop (\<lambda>k. 120500) (snake globals) 0 = None"
proof (rule spawnLoop_never, rule allI)
  fix j :: nat
  show "\<not> validPosition (snake globals) (candidate (\<lambda>k. 120500) j)"
    unfolding stuck_candidate by (simp add: globals_def validPosition_eval game_consts)
qed

lemma initial_stuck: "initial (\<lambda>k. 120500) = None"
  by (simp add: initial_def spawnFood_def globals_def spawnLoop_on_snake_never [unfolded globals_def, simplified])

subsection \<open>The steps of a tick\<close>

lemma spawnFood_frame:
  assumes "spawnFood rand isBigFood g = Some g1"
  shows "snake g1 = snake g" "score g1 = score g" "gameOver g1 = gameOver g"
    "smallFoodOnScreen g1 = smallFoodOnScreen g" "bigFoodOnScreen g1 = bigFoodOnScreen g"
    "smallFoodEaten g1 = smallFoodEaten g" "currentDirection g1 = currentDirection g"
    "nextDirection g1 = nextDirection g"
  using assms by (auto simp: spawnFood_def split: option.splits if_splits)

lemma checkCollisions_frame:
  "snake (checkCollisions g) = snake g" "score (checkCollisions g) = score g"
  "smallFoodOnScreen (checkCollisions g) = smallFoodOnScreen g"
  "bigFoodOnScreen (checkCollisions g) = bigFoodOnScreen g"
  "smallFoodEaten (checkCollisions g) = smallFoodEaten g"
  "smallFood (checkCollisions g) = smallFood g" "bigFood (checkCollisions g) = bigFood g"
  "currentDirection (checkCollisions g) = currentDirection g"
  "nextDirection (checkCollisions g) = nextDirection g"
  "rand_calls (checkCollisions g) = rand_calls g"
  by (simp_all add: checkCollisions_def Let_def)

lemma checkCollisions_gameOver:
  "gameOver (checkCollisions g) \<longleftrightarrow>
     gameOver g \<or> hitsWall (position (hd (snake g))) \<or>
     hitsBody (position (hd (snake g))) (tl (snake g))"
  by (simp add: checkCollisions_def Let_def)

lemma moved_frame:
  "snake (moved t g) = advance (nextDirection g) (snake g)" "score (moved t g) = score g"
  "smallFoodOnScreen (moved t g) = smallFoodOnScreen g"
  "bigFoodOnScreen (moved t g) = bigFoodOnScreen g"
  "smallFoodEaten (moved t g) = smallFoodEaten g"
  "smallFood (moved t g) = smallFood g" "bigFood (moved t g) = bigFood g"
  "currentDirection (moved t g) = nextDirection g"
  "nextDirection (moved t g) = nextDirection g"
  "rand_calls (moved t g) = rand_calls g"
  by (simp_all add: moved_def Let_def checkCollisions_frame)

lemma moved_length: "length (snake (moved t g)) = length (snake g)"
  by (simp add: moved_frame advance_length)

lemma moved_eq:
  assumes "snake g \<noteq> []"
  shows "moved t g =
     g\<lparr>currentDirection := nextDirection g, lastMoveTime := t,
       snake := moveHead (nextDirection g) (hd (snake g)) # butlast (snake g),
       gameOver := gameOver g \<or>
          hitsWall (position (moveHead (nextDirection g) (hd (snake g)))) \<or>
          hitsBody (position (moveHead (nextDirection g) (hd (snake g)))) (butlast (snake g))\<rparr>"
  using assms by (simp add: moved_def checkCollisions_def Let_def advance_eq)

lemma moved_snake_eq: "snake g \<noteq> [] \<Longrightarrow> snake (moved t g) = moveHead (nextDirection g) (hd (snake g)) # butlast (snake g)"
  by (simp add: moved_frame advance_eq)


lemma moved_gameOver_iff:
  "gameOver (moved t g) \<longleftrightarrow>
     gameOver g \<or> hitsWall (position (hd (snake (moved t g)))) \<or>
     hitsBody (position (hd (snake (moved t g)))) (tl (snake (moved t g)))"
  by (simp add: moved_def Let_def checkCollisions_gameOver checkCollisions_frame)

lemma hitsBody_iff:
  "hitsBody p sn \<longleftrightarrow> (\<exists>s \<in> set sn. distance p (position s) < MOVE_STRIDE)"
  by (induction sn) auto

lemma hitsBody_eval:
  "hitsBody p sn \<longleftrightarrow>
     (\<exists>s \<in> set sn. (fst p - fst (position s)) * (fst p - fst (position s)) +
                     (snd p - snd (position s)) * (snd p - snd (position s)) < 25 / 4)"
proof -
  have sq: "MOVE_STRIDE * MOVE_STRIDE = 25 / 4" and nn: "0 \<le> MOVE_STRIDE"
    by (simp_all add: MOVE_STRIDE_def)
  show ?thesis
    unfolding hitsBody_iff distance_less_eval [OF nn] sq ..
qed

lemma hitsBody_far_x:
  assumes "\<forall>s \<in> set sn. MOVE_STRIDE \<le> \<bar>fst p - fst (position s)\<bar>"
  shows "\<not> hitsBody p sn"
proof -
  have nn: "0 \<le> MOVE_STRIDE" by (simp add: MOVE_STRIDE_def)
  have "\<forall>s \<in> set sn. \<not> distance p (position s) < MOVE_STRIDE"
  proof
    fix s assume "s \<in> set sn"
    with assms have "MOVE_STRIDE \<le> \<bar>fst p - fst (position s)\<bar>" by blast
    with nn show "\<not> distance p (position s) < MOVE_STRIDE" by (rule far_in_x)
  qed
  then show ?thesis by (simp only: hitsBody_iff) blast
qed

lemma hitsWall_eval:
  "hitsWall p \<longleftrightarrow> fst p < 60 \<or> 740 \<le> fst p \<or> snd p < 43 \<or> 540 \<le> snd p"
  by (simp add: hitsWall_def game_consts)

lemma smallFoodHit_eval:
  "smallFoodHit g \<longleftrightarrow> smallFoodOnScreen g \<and>
     (fst (position (hd (snake g))) - fst (position (smallFood g))) *
     (fst (position (hd (snake g))) - fst (position (smallFood g))) +
     (snd (position (hd (snake g))) - snd (position (smallFood g))) *
     (snd (position (hd (snake g))) - snd (position (smallFood g))) < 400"
  by (simp add: smallFoodHit_def distance_less_eval SQUARE_SIZE_def)

lemma bigFoodHit_eval:
  "bigFoodHit g \<longleftrightarrow> bigFoodOnScreen g \<and>
     (fst (position (hd (snake g))) - fst (position (bigFood g))) *
     (fst (position (hd (snake g))) - fst (position (bigFood g))) +
     (snd (position (hd (snake g))) - snd (position (bigFood g))) *
     (snd (position (hd (snake g))) - snd (position (bigFood g))) < 1600"
  by (simp add: bigFoodHit_def distance_less_eval SQUARE_SIZE_def)

lemma smallFoodCheck_miss: "\<not> smallFoodHit g \<Longrightarrow> smallFoodCheck rand g = Some g"
  by (simp add: smallFoodCheck_def)

lemma smallFoodCheck_hit:
  assumes "smallFoodHit g" "smallFoodEaten g \<noteq> 2"
    and "spawnLoop rand (grow 25 (snake g)) (rand_calls g) = Some (p, k)"
  shows "smallFoodCheck rand g =
     Some (g\<lparr>snake := grow 25 (snake g), score := score g + 1,
             smallFoodEaten := smallFoodEaten g + 1,
             smallFood := (smallFood g)\<lparr>position := p\<rparr>, rand_calls := k,
             smallFoodOnScreen := True\<rparr>)"
  using assms by (simp add: smallFoodCheck_def spawnFood_def Let_def)

lemma smallFoodCheck_hit_third:
  assumes "smallFoodHit g" "smallFoodEaten g = 2"
    and "spawnLoop rand (grow 25 (snake g)) (rand_calls g) = Some (p, k)"
  shows "smallFoodCheck rand g =
     Some (g\<lparr>snake := grow 25 (snake g), score := score g + 1,
             bigFood := (bigFood g)\<lparr>position := p\<rparr>, rand_calls := k,
             bigFoodOnScreen := True, smallFoodOnScreen := False, smallFoodEaten := 0\<rparr>)"
  using assms by (simp add: smallFoodCheck_def spawnFood_def Let_def)

lemma bigFoodCheck_miss: "\<not> bigFoodHit g \<Longrightarrow> bigFoodCheck rand g = Some g"
  by (simp add: bigFoodCheck_def)

lemma bigFoodCheck_hit:
  assumes "bigFoodHit g"
    and "spawnLoop rand (grow 75 (snake g)) (rand_calls g) = Some (p, k)"
  shows "bigFoodCheck rand g =
     Some (g\<lparr>snake := grow 75 (snake g), score := score g + 2,
             smallFood := (smallFood g)\<lparr>position := p\<rparr>, rand_calls := k,
             smallFoodOnScreen := True, bigFoodOnScreen := False\<rparr>)"
  using assms by (simp add: bigFoodCheck_def spawnFood_def Let_def)

lemma small_food_branch_effects:
  assumes "smallFoodCheck rand g = Some g1" "smallFoodHit g"
  shows "snake g1 = grow 25 (snake g) \<and> score g1 = score g + 1 \<and> gameOver g1 = gameOver g \<and>
         (if smallFoodEaten g + 1 = 3
          then bigFoodOnScreen g1 \<and> \<not> smallFoodOnScreen g1 \<and> smallFoodEaten g1 = 0 \<and>
               (\<exists>k. spawnLoop rand (snake g1) (rand_calls g) = Some (position (bigFood g1), k)) \<and>
               smallFood g1 = smallFood g
          else smallFoodOnScreen g1 \<and> bigFoodOnScreen g1 = bigFoodOnScreen g \<and>
               smallFoodEaten g1 = smallFoodEaten g + 1 \<and>
               (\<exists>k. spawnLoop rand (snake g1) (rand_calls g) = Some (position (smallFood g1), k)) \<and>
               bigFood g1 = bigFood g)"
  using assms
  by (auto simp: smallFoodCheck_def Let_def spawnFood_def split: if_splits option.splits)

lemma smallFoodCheck_effect:
  assumes "smallFoodCheck rand g = Some g1"
  shows "gameOver g1 = gameOver g"
    and "smallFoodHit g \<Longrightarrow> snake g1 = grow 25 (snake g) \<and> score g1 = score g + 1"
    and "\<not> smallFoodHit g \<Longrightarrow> g1 = g"
  using assms
  by (auto simp: smallFoodCheck_def Let_def spawnFood_def split: if_splits option.splits)

lemma bigFoodCheck_effect:
  assumes "bigFoodCheck rand g = Some g1"
  shows "gameOver g1 = gameOver g"
    and "bigFoodHit g \<Longrightarrow> snake g1 = grow 75 (snake g) \<and> score g1 = score g + 2"
    and "\<not> bigFoodHit g \<Longrightarrow> g1 = g"
  using assms
  by (auto simp: bigFoodCheck_def Let_def spawnFood_def split: if_splits option.splits)

lemma smallFoodCheck_hd:
  assumes "smallFoodCheck rand g = Some g1" "snake g \<noteq> []"
  shows "hd (snake g1) = hd (snake g)" "snake g1 \<noteq> []"
  using smallFoodCheck_effect(2,3)[OF assms(1)] assms(2)
  by (cases "smallFoodHit g"; simp add: grow_eq)+

lemma bigFoodCheck_hd:
  assumes "bigFoodCheck rand g = Some g1" "snake g \<noteq> []"
  shows "hd (snake g1) = hd (snake g)" "snake g1 \<noteq> []"
  using bigFoodCheck_effect(2,3)[OF assms(1)] assms(2)
  by (cases "bigFoodHit g"; simp add: grow_eq)+

lemma smallFoodCheck_direction:
  "smallFoodCheck rand g = Some g1 \<Longrightarrow> currentDirection g1 = currentDirection g \<and> nextDirection g1 = nextDirection g"
  by (auto simp: smallFoodCheck_def Let_def spawnFood_frame split: if_splits option.splits)

lemma bigFoodCheck_direction:
  "bigFoodCheck rand g = Some g1 \<Longrightarrow> currentDirection g1 = currentDirection g \<and> nextDirection g1 = nextDirection g"
  by (auto simp: bigFoodCheck_def Let_def spawnFood_frame split: if_splits option.splits)

lemma smallFoodCheck_flags:
  assumes "smallFoodCheck rand g = Some g1" "smallFoodOnScreen g \<noteq> bigFoodOnScreen g"
  shows "smallFoodOnScreen g1 \<noteq> bigFoodOnScreen g1"
  using assms
  by (auto simp: smallFoodCheck_def smallFoodHit_def Let_def spawnFood_frame
      split: if_splits option.splits dest: spawnFood_frame(4,5))

lemma bigFoodCheck_flags:
  assumes "bigFoodCheck rand g = Some g1" "smallFoodOnScreen g \<noteq> bigFoodOnScreen g"
  shows "smallFoodOnScreen g1 \<noteq> bigFoodOnScreen g1"
  using assms
  by (auto simp: bigFoodCheck_def Let_def split: if_splits option.splits)

lemma tick_eq:
  "snake g \<noteq> [] \<Longrightarrow> smallFoodCheck rand (moved t g) = Some g1 \<Longrightarrow>
   tick rand t g = bigFoodCheck rand g1"
  by (simp add: tick_def)

lemma tick_plain:
  "snake g \<noteq> [] \<Longrightarrow> \<not> smallFoodHit (moved t g) \<Longrightarrow> \<not> bigFoodHit (moved t g) \<Longrightarrow>
   tick rand t g = Some (moved t g)"
  by (simp add: tick_def smallFoodCheck_miss bigFoodCheck_miss)

lemma tick_small_food_only:
  assumes "tick rand t g = Some g1" "smallFoodCheck rand (moved t g) = Some g2" "\<not> bigFoodHit g2"
  shows "g1 = g2"
  using assms by (auto simp: tick_def bigFoodCheck_miss split: if_splits)

lemma tick_steps:
  assumes "tick rand t g = Some g1"
  obtains g2 where "snake g \<noteq> []" "smallFoodCheck rand (moved t g) = Some g2" "bigFoodCheck rand g2 = Some g1"
  using assms by (auto simp: tick_def split: if_splits option.splits)

lemma tick_flags:
  assumes "tick rand t g = Some g1" "smallFoodOnScreen g \<noteq> bigFoodOnScreen g"
  shows "smallFoodOnScreen g1 \<noteq> bigFoodOnScreen g1"
proof -
  from assms(1) obtain g2 where s: "smallFoodCheck rand (moved t g) = Some g2"
    and b: "bigFoodCheck rand g2 = Some g1"
    by (auto simp: tick_def split: if_splits option.splits)
  from assms(2) have "smallFoodOnScreen (moved t g) \<noteq> bigFoodOnScreen (moved t g)"
    by (simp add: moved_frame)
  from smallFoodCheck_flags[OF s this] bigFoodCheck_flags[OF b] show ?thesis by blast
qed

lemma tick_gameOver:
  assumes "tick rand t g = Some g1"
  shows "gameOver g1 = gameOver (moved t g)"
proof -
  from assms obtain g2 where "smallFoodCheck rand (moved t g) = Some g2" "bigFoodCheck rand g2 = Some g1"
    by (rule tick_steps)
  then show ?thesis by (simp add: smallFoodCheck_effect(1) bigFoodCheck_effect(1))
qed


lemma tick_commits_direction:
  assumes "tick rand t g = Some g1"
  shows "currentDirection g1 = nextDirection g"
proof -
  from assms obtain g2 where s: "smallFoodCheck rand (moved t g) = Some g2"
    and b: "bigFoodCheck rand g2 = Some g1"
    by (auto simp: tick_def split: if_splits option.splits)
  from smallFoodCheck_direction[OF s] bigFoodCheck_direction[OF b] show ?thesis
    by (simp add: moved_frame)
qed

lemma tick_snake_nonempty:
  assumes "tick rand t g = Some g1"
  shows "snake g1 \<noteq> []"
proof -
  from assms obtain g2 where ne: "snake g \<noteq> []" and s: "smallFoodCheck rand (moved t g) = Some g2"
    and b: "bigFoodCheck rand g2 = Some g1"
    by (rule tick_steps)
  have "snake (moved t g) \<noteq> []" using ne by (simp add: moved_snake_eq)
  from bigFoodCheck_hd(2) [OF b smallFoodCheck_hd(2) [OF s this]] show ?thesis .
qed

text \<open>
  A food check returns when its spawn loop does, and so does a tick: the loops it runs
  are on the snake after the move, grown by 25, 75 or 100 segments.
\<close>

lemma smallFoodCheck_returns:
  assumes "spawnLoop rand (grow 25 (snake g)) (rand_calls g) \<noteq> None"
  shows "\<exists>g1. smallFoodCheck rand g = Some g1"
  using assms by (auto simp: smallFoodCheck_def spawnFood_def Let_def split: option.splits)

lemma bigFoodCheck_returns:
  assumes "spawnLoop rand (grow 75 (snake g)) (rand_calls g) \<noteq> None"
  shows "\<exists>g1. bigFoodCheck rand g = Some g1"
  using assms by (auto simp: bigFoodCheck_def spawnFood_def Let_def split: option.splits)

lemma tick_returns:
  assumes ne: "snake g \<noteq> []"
    and sp: "\<forall>n k. spawnLoop rand (grow n (snake (moved t g))) k \<noteq> None"
  shows "\<exists>g1. tick rand t g = Some g1"
proof -
  have mne: "snake (moved t g) \<noteq> []" using ne by (simp add: moved_snake_eq)
  from sp have "spawnLoop rand (grow 25 (snake (moved t g))) (rand_calls (moved t g)) \<noteq> None"
    by blast
  then obtain g2 where s: "smallFoodCheck rand (moved t g) = Some g2"
    using smallFoodCheck_returns by blast
  have "\<exists>n. snake g2 = grow n (snake (moved t g))"
  proof (cases "smallFoodHit (moved t g)")
    case True
    from smallFoodCheck_effect(2) [OF s True] show ?thesis by blast
  next
    case False
    from smallFoodCheck_effect(3) [OF s False] have "snake g2 = grow 0 (snake (moved t g))"
      by (simp add: grow_eq)
    then show ?thesis by blast
  qed
  then obtain n where "snake g2 = grow n (snake (moved t g))" by blast
  then have "grow 75 (snake g2) = grow (n + 75) (snake (moved t g))"
    using mne by (simp add: grow_grow)
  with sp have "spawnLoop rand (grow 75 (snake g2)) (rand_calls g2) \<noteq> None" by simp
  then obtain g1 where "bigFoodCheck rand g2 = Some g1"
    using bigFoodCheck_returns by blast
  with ne s show ?thesis by (simp add: tick_eq)
qed

subsection \<open>Input and frames\<close>

lemmas processInput_defs = processInput_def inputDirection_def inputCtrl_def inputSpace_def
  noKeys_def pressUp_def pressLeft_def pressDown_def pressRight_def

lemma inputSpace_frame:
  "snake (inputSpace ks g) = snake g" "score (inputSpace ks g) = score g"
  "smallFoodOnScreen (inputSpace ks g) = smallFoodOnScreen g"
  "bigFoodOnScreen (inputSpace ks g) = bigFoodOnScreen g"
  "smallFoodEaten (inputSpace ks g) = smallFoodEaten g"
  "smallFood (inputSpace ks g) = smallFood g" "bigFood (inputSpace ks g) = bigFood g"
  "gameOver (inputSpace ks g) = gameOver g"
  "currentDirection (inputSpace ks g) = currentDirection g"
  "nextDirection (inputSpace ks g) = nextDirection g"
  "lastMoveTime (inputSpace ks g) = lastMoveTime g"
  "rand_calls (inputSpace ks g) = rand_calls g"
  "ctrlPressed (inputSpace ks g) = ctrlPressed g"
  "game_speed_controller (inputSpace ks g) = game_speed_controller g"
  by (simp_all add: inputSpace_def Let_def)

lemma inputCtrl_frame:
  "snake (inputCtrl ks g) = snake g" "score (inputCtrl ks g) = score g"
  "smallFoodOnScreen (inputCtrl ks g) = smallFoodOnScreen g"
  "bigFoodOnScreen (inputCtrl ks g) = bigFoodOnScreen g"
  "smallFoodEaten (inputCtrl ks g) = smallFoodEaten g"
  "smallFood (inputCtrl ks g) = smallFood g" "bigFood (inputCtrl ks g) = bigFood g"
  "gameOver (inputCtrl ks g) = gameOver g"
  "currentDirection (inputCtrl ks g) = currentDirection g"
  "nextDirection (inputCtrl ks g) = nextDirection g"
  "lastMoveTime (inputCtrl ks g) = lastMoveTime g"
  "rand_calls (inputCtrl ks g) = rand_calls g"
  "spacePressed (inputCtrl ks g) = spacePressed g"
  "game_speed_controller (inputCtrl ks g) = game_speed_controller g"
  by (simp_all add: inputCtrl_def Let_def)

lemma inputDirection_frame:
  "snake (inputDirection ks g) = snake g" "score (inputDirection ks g) = score g"
  "smallFoodOnScreen (inputDirection ks g) = smallFoodOnScreen g"
  "bigFoodOnScreen (inputDirection ks g) = bigFoodOnScreen g"
  "smallFoodEaten (inputDirection ks g) = smallFoodEaten g"
  "smallFood (inputDirection ks g) = smallFood g" "bigFood (inputDirection ks g) = bigFood g"
  "gameOver (inputDirection ks g) = gameOver g"
  "currentDirection (inputDirection ks g) = currentDirection g"
  "lastMoveTime (inputDirection ks g) = lastMoveTime g"
  "rand_calls (inputDirection ks g) = rand_calls g"
  "spacePressed (inputDirection ks g) = spacePressed g"
  "ctrlPressed (inputDirection ks g) = ctrlPressed g"
  "GAME_SPEED (inputDirection ks g) = GAME_SPEED g"
  "game_speed_controller (inputDirection ks g) = game_speed_controller g"
  by (simp_all add: inputDirection_def)

lemma processInput_frame:
  "snake (processInput ks g) = snake g" "score (processInput ks g) = score g"
  "smallFoodOnScreen (processInput ks g) = smallFoodOnScreen g"
  "bigFoodOnScreen (processInput ks g) = bigFoodOnScreen g"
  "smallFoodEaten (processInput ks g) = smallFoodEaten g"
  "smallFood (processInput ks g) = smallFood g" "bigFood (processInput ks g) = bigFood g"
  "gameOver (processInput ks g) = gameOver g"
  "currentDirection (processInput ks g) = currentDirection g"
  "lastMoveTime (processInput ks g) = lastMoveTime g"
  "rand_calls (processInput ks g) = rand_calls g"
  "game_speed_controller (processInput ks g) = game_speed_controller g"
  by (simp_all add: processInput_def inputDirection_frame inputCtrl_frame inputSpace_frame)

lemma processInput_nextDirection:
  "nextDirection (processInput ks g) = nextDirection (inputDirection ks g)"
  by (simp add: processInput_def inputDirection_def inputCtrl_frame inputSpace_frame)

lemma inputDirection_reverse:
  assumes "arrowOnly (opposite (currentDirection g)) ks"
  shows "inputDirection ks g = g"
  using assms by (cases "currentDirection g") (simp_all add: arrowOnly_def inputDirection_def)

lemma speed_keys_release:
  "\<not> KEY_SPACE ks \<Longrightarrow> \<not> KEY_LEFT_CONTROL ks \<Longrightarrow>
     GAME_SPEED (processInput ks g) = game_speed_controller g"
  "\<not> KEY_SPACE ks \<Longrightarrow> KEY_LEFT_CONTROL ks \<Longrightarrow> ctrlPressed g \<Longrightarrow>
     GAME_SPEED (processInput ks g) = GAME_SPEED g"
  "KEY_SPACE ks \<Longrightarrow> \<not> KEY_LEFT_CONTROL ks \<Longrightarrow> spacePressed g \<Longrightarrow>
     GAME_SPEED (processInput ks g) = GAME_SPEED g"
  by (simp_all add: processInput_def inputDirection_frame inputCtrl_def inputSpace_def Let_def)

lemma processInput_noKeys_same:
  "\<not> spacePressed g \<Longrightarrow> \<not> ctrlPressed g \<Longrightarrow> GAME_SPEED g = game_speed_controller g \<Longrightarrow>
   processInput noKeys g = g"
  by (simp add: processInput_defs)

lemma frame_tick:
  "GAME_SPEED (processInput ks g) \<le> t - lastMoveTime g \<Longrightarrow> \<not> gameOver g \<Longrightarrow>
   frame rand ks t g = tick rand t (processInput ks g)"
  by (simp add: frame_def Let_def processInput_frame)

lemma frame_idle:
  "\<not> GAME_SPEED (processInput ks g) \<le> t - lastMoveTime g \<or> gameOver g \<Longrightarrow>
   frame rand ks t g = Some (processInput ks g)"
  by (auto simp add: frame_def Let_def processInput_frame)

lemma frame_plain:
  assumes "processInput ks g = g1" "snake g \<noteq> []" "\<not> gameOver g"
    "GAME_SPEED g1 \<le> t - lastMoveTime g"
    "moved t g1 = g2" "\<not> smallFoodHit g2" "\<not> bigFoodHit g2"
  shows "frame rand ks t g = Some g2"
proof -
  have "snake g1 \<noteq> []" using assms(1,2) by (auto simp: processInput_frame)
  from tick_plain [OF this, of t rand] assms show ?thesis
    by (simp add: frame_tick)
qed

lemma frame_flags:
  assumes "frame rand ks t g = Some g1" "smallFoodOnScreen g \<noteq> bigFoodOnScreen g"
  shows "smallFoodOnScreen g1 \<noteq> bigFoodOnScreen g1"
proof (cases "t - lastMoveTime (processInput ks g) \<ge> GAME_SPEED (processInput ks g) \<and> \<not> gameOver (processInput ks g)")
  case True
  with assms(1) have "tick rand t (processInput ks g) = Some g1"
    by (simp add: frame_def Let_def)
  from tick_flags[OF this] assms(2) show ?thesis by (simp add: processInput_frame)
next
  case False
  with assms(1) have "g1 = processInput ks g"
    by (auto simp add: frame_def Let_def)
  with assms(2) show ?thesis by (simp add: processInput_frame)
qed

lemma frame_snake_nonempty:
  assumes "frame rand ks t g = Some g1" "snake g \<noteq> []"
  shows "snake g1 \<noteq> []"
proof (cases "GAME_SPEED (processInput ks g) \<le> t - lastMoveTime g \<and> \<not> gameOver g")
  case True
  with assms(1) have "tick rand t (processInput ks g) = Some g1" by (simp add: frame_tick)
  then show ?thesis by (rule tick_snake_nonempty)
next
  case False
  then have "frame rand ks t g = Some (processInput ks g)" by (intro frame_idle) blast
  with assms show ?thesis by (auto simp: processInput_frame)
qed

lemma initial_flags:
  assumes "initial rand = Some g"
  shows "smallFoodOnScreen g \<noteq> bigFoodOnScreen g"
  using spawnFood_frame(4,5)[OF assms[unfolded initial_def]] by (simp add: globals_def)

lemma reachable_flags: "reachable rand g \<Longrightarrow> smallFoodOnScreen g \<noteq> bigFoodOnScreen g"
proof (induction rule: reachable.induct)
  case (reachable_initial g)
  then show ?case by (rule initial_flags)
next
  case (reachable_frame g ks currentTime g1)
  from frame_flags[OF reachable_frame(3) reachable_frame(4)] show ?case .
qed

lemma reachable_snake_nonempty: "reachable rand g \<Longrightarrow> snake g \<noteq> []"
proof (induction rule: reachable.induct)
  case (reachable_initial g)
  then show ?case
    using spawnFood_frame(1) [of rand False globals g] by (simp add: initial_def globals_def)
next
  case (reachable_frame g ks currentTime g1)
  from frame_snake_nonempty [OF reachable_frame(3) reachable_frame(4)] show ?case .
qed

text \<open>
  In a game every food on screen lies where \<open>spawnFood\<close> has put it, in the square
  [100, 700] x [100, 500], and a head position that fails the wall test is at least 40
  from every point of that square.
\<close>

lemma spawnLoop_inSpawnBox:
  assumes "spawnLoop rand sn k = Some (p, k')"
  shows "inSpawnBox p"
proof -
  from spawnLoop_position(1) [OF assms] obtain nx ny :: int where
    "p = (real_of_int nx, real_of_int ny)" "100 \<le> nx" "nx \<le> 700" "100 \<le> ny" "ny \<le> 500"
    by blast
  then show ?thesis by (simp add: inSpawnBox_def)
qed

lemma spawnFood_box:
  assumes "spawnFood rand isBigFood g = Some g1"
  shows "inSpawnBox (spawned isBigFood g1)"
    and "isBigFood \<Longrightarrow> smallFood g1 = smallFood g"
    and "\<not> isBigFood \<Longrightarrow> bigFood g1 = bigFood g"
  using assms
  by (auto simp: spawnFood_def spawned_def split: option.splits if_splits
      dest: spawnLoop_inSpawnBox)

lemma initial_box:
  assumes "initial rand = Some g"
  shows "foodsInBox g"
  using spawnFood_box(1) [OF assms [unfolded initial_def]]
    spawnFood_frame(5) [OF assms [unfolded initial_def]]
  by (simp add: foodsInBox_def spawned_def globals_def)

lemma smallFoodCheck_box:
  assumes "smallFoodCheck rand g = Some g1" "foodsInBox g"
  shows "foodsInBox g1"
  using assms
  by (auto simp: smallFoodCheck_def Let_def foodsInBox_def spawned_def
      split: if_splits option.splits
      dest: spawnFood_box spawnFood_frame(4,5))

lemma bigFoodCheck_box:
  assumes "bigFoodCheck rand g = Some g1" "foodsInBox g"
  shows "foodsInBox g1"
  using assms
  by (auto simp: bigFoodCheck_def Let_def foodsInBox_def spawned_def
      split: if_splits option.splits
      dest: spawnFood_box spawnFood_frame(4,5))

lemma tick_box:
  assumes "tick rand t g = Some g1" "foodsInBox g"
  shows "foodsInBox g1"
proof -
  from assms(1) obtain g2 where s: "smallFoodCheck rand (moved t g) = Some g2"
    and b: "bigFoodCheck rand g2 = Some g1"
    by (rule tick_steps)
  from assms(2) have "foodsInBox (moved t g)" by (simp add: foodsInBox_def moved_frame)
  from bigFoodCheck_box [OF b smallFoodCheck_box [OF s this]] show ?thesis .
qed

lemma processInput_box: "foodsInBox (processInput ks g) = foodsInBox g"
  by (simp add: foodsInBox_def processInput_frame)

lemma frame_box:
  assumes "frame rand ks t g = Some g1" "foodsInBox g"
  shows "foodsInBox g1"
proof (cases "t - lastMoveTime (processInput ks g) \<ge> GAME_SPEED (processInput ks g) \<and> \<not> gameOver (processInput ks g)")
  case True
  with assms(1) have "tick rand t (processInput ks g) = Some g1"
    by (simp add: frame_def Let_def)
  from tick_box [OF this] assms(2) show ?thesis by (simp add: processInput_box)
next
  case False
  with assms(1) have "g1 = processInput ks g"
    by (auto simp add: frame_def Let_def)
  with assms(2) show ?thesis by (simp add: processInput_box)
qed

lemma reachable_box: "reachable rand g \<Longrightarrow> foodsInBox g"
proof (induction rule: reachable.induct)
  case (reachable_initial g)
  then show ?case by (rule initial_box)
next
  case (reachable_frame g ks currentTime g1)
  from frame_box [OF reachable_frame(3) reachable_frame(4)] show ?case .
qed

lemma hitsWall_far_from_box:
  assumes "hitsWall p" "inSpawnBox q"
  shows "\<not> distance p q < SQUARE_SIZE * 2"
proof -
  have nn: "(0::real) \<le> SQUARE_SIZE * 2" by (simp add: SQUARE_SIZE_def)
  from assms have "SQUARE_SIZE * 2 \<le> \<bar>fst p - fst q\<bar> \<or> SQUARE_SIZE * 2 \<le> \<bar>snd p - snd q\<bar>"
    by (auto simp: hitsWall_eval inSpawnBox_def SQUARE_SIZE_def)
  then show ?thesis using far_in_x [OF nn] far_in_y [OF nn] by blast
qed

subsection \<open>The concrete game\<close>

lemmas demo_states = fresh_def globals_def segAt_def afterTick1_def climbing_def turnedLeft_def
  descended_def coiled_def

lemmas bite_states = afterTick2_def afterTick3_def rising_def leftward_def diving_def lastBite_def

lemma demoRand_candidates:
  "candidate demoRand 0 = (420, 300)" "candidate demoRand 2 = (423, 300)"
  "candidate demoRand 4 = (425, 300)" "candidate demoRand 6 = (377, 272)"
  "candidate demoRand 8 = (100, 100)"
  by (simp_all add: candidate_def demoRand_def repeating_def spawn_consts)

lemma initial_demo: "initial demoRand = Some fresh"
proof -
  have "validPosition (snake globals) (candidate demoRand 0)"
    by (simp add: globals_def demoRand_candidates distance_less_iff game_consts)
  then have "spawnLoop demoRand (snake globals) 0 = Some ((420, 300), 2)"
    by (simp add: spawnLoop_accept demoRand_candidates)
  then show ?thesis
    by (simp add: initial_def spawnFood_def fresh_def globals_def)
qed

lemma reachable_fresh: "reachable demoRand fresh"
  by (rule reachable_initial [OF initial_demo])

lemma processInput_noKeys_fresh: "processInput noKeys fresh = fresh"
  by (simp add: processInput_def inputDirection_def inputCtrl_def inputSpace_def noKeys_def fresh_def globals_def)

lemma replicate_26: "x # replicate 25 x = replicate 26 x"
  using replicate_Suc [of 25 x] by simp

lemma tick1: "tick demoRand 1 fresh = Some afterTick1"
proof -
  let ?m = "fresh\<lparr>lastMoveTime := 1, snake := [segAt (805 / 2)]\<rparr>"
  have ne: "snake fresh \<noteq> []" by (simp add: fresh_def globals_def)
  have m: "moved 1 fresh = ?m"
    by (simp add: moved_eq [OF ne]) (simp add: fresh_def globals_def segAt_def hitsWall_def game_consts)
  have hit: "smallFoodHit ?m"
    by (simp add: smallFoodHit_def fresh_def globals_def segAt_def distance_less_eval game_consts)
  have cnt: "smallFoodEaten ?m \<noteq> 2" by (simp add: fresh_def globals_def)
  have "validPosition (grow 25 (snake ?m)) (candidate demoRand 2)"
    by (simp add: grow_eq validPosition_iff demoRand_candidates segAt_def distance_less_eval game_consts)
  then have sp: "spawnLoop demoRand (grow 25 (snake ?m)) (rand_calls ?m) = Some ((423, 300), 4)"
    by (simp add: fresh_def spawnLoop_accept demoRand_candidates)
  have s: "smallFoodCheck demoRand (moved 1 fresh) = Some afterTick1"
    unfolding m smallFoodCheck_hit [OF hit cnt sp]
    by (simp add: afterTick1_def fresh_def globals_def grow_eq replicate_26)
  have nb: "\<not> bigFoodHit afterTick1"
    by (simp add: bigFoodHit_def afterTick1_def fresh_def globals_def)
  show ?thesis
    unfolding tick_eq [OF ne s] using nb by (rule bigFoodCheck_miss)
qed

lemma frame_afterTick1: "frame demoRand noKeys 1 fresh = Some afterTick1"
proof -
  have "GAME_SPEED (processInput noKeys fresh) \<le> 1 - lastMoveTime fresh" "\<not> gameOver fresh"
    by (simp_all add: processInput_noKeys_fresh) (simp_all add: demo_states)
  then show ?thesis
    by (simp add: frame_tick processInput_noKeys_fresh tick1)
qed

text \<open>Going right: the second small food, then the third, which brings the large food.\<close>

lemma tick2: "tick demoRand 2 afterTick1 = Some afterTick2"
proof -
  let ?m = "afterTick1\<lparr>lastMoveTime := 2, snake := segAt 405 # replicate 25 (segAt (805 / 2))\<rparr>"
  have ne: "snake afterTick1 \<noteq> []" by (simp add: demo_states)
  have m: "moved 2 afterTick1 = ?m"
    by (simp add: moved_eq [OF ne])
       (simp add: demo_states hitsBody_eval hitsWall_eval butlast_replicate MOVE_STRIDE_def)
  have hit: "smallFoodHit ?m" by (simp add: smallFoodHit_eval demo_states)
  have cnt: "smallFoodEaten ?m \<noteq> 2" by (simp add: demo_states)
  have "validPosition (grow 25 (snake ?m)) (candidate demoRand 4)"
    by (simp add: grow_eq validPosition_eval demoRand_candidates demo_states)
  then have sp: "spawnLoop demoRand (grow 25 (snake ?m)) (rand_calls ?m) = Some ((425, 300), 6)"
    by (simp add: demo_states spawnLoop_accept demoRand_candidates)
  have s: "smallFoodCheck demoRand (moved 2 afterTick1) = Some afterTick2"
    unfolding m smallFoodCheck_hit [OF hit cnt sp]
    by (simp add: bite_states demo_states grow_eq replicate_add [symmetric])
  have nb: "\<not> bigFoodHit afterTick2" by (simp add: bigFoodHit_def bite_states demo_states)
  show ?thesis
    unfolding tick_eq [OF ne s] using nb by (rule bigFoodCheck_miss)
qed

lemma moved_afterTick2:
  "moved 3 afterTick2 =
     afterTick2\<lparr>lastMoveTime := 3, snake := segAt (815 / 2) # segAt 405 # replicate 49 (segAt (805 / 2))\<rparr>"
proof -
  have ne: "snake afterTick2 \<noteq> []" by (simp add: bite_states)
  show ?thesis
    by (simp add: moved_eq [OF ne])
       (simp add: bite_states demo_states hitsBody_eval hitsWall_eval butlast_replicate MOVE_STRIDE_def)
qed

lemma smallFoodHit_moved_afterTick2: "smallFoodHit (moved 3 afterTick2)"
  unfolding moved_afterTick2 by (simp add: smallFoodHit_eval bite_states demo_states)

lemma smallFoodCheck_afterTick2: "smallFoodCheck demoRand (moved 3 afterTick2) = Some afterTick3"
proof -
  let ?m = "afterTick2\<lparr>lastMoveTime := 3, snake := segAt (815 / 2) # segAt 405 # replicate 49 (segAt (805 / 2))\<rparr>"
  have hit: "smallFoodHit ?m" by (simp add: smallFoodHit_eval bite_states demo_states)
  have cnt: "smallFoodEaten ?m = 2" by (simp add: bite_states)
  have "validPosition (grow 25 (snake ?m)) (candidate demoRand 6)"
    by (simp add: grow_eq validPosition_eval demoRand_candidates demo_states)
  then have sp: "spawnLoop demoRand (grow 25 (snake ?m)) (rand_calls ?m) = Some ((377, 272), 8)"
    by (simp add: bite_states spawnLoop_accept demoRand_candidates)
  show ?thesis
    unfolding moved_afterTick2 smallFoodCheck_hit_third [OF hit cnt sp]
    by (simp add: bite_states demo_states grow_eq replicate_add [symmetric])
qed

lemma tick3: "tick demoRand 3 afterTick2 = Some afterTick3"
proof -
  have ne: "snake afterTick2 \<noteq> []" by (simp add: bite_states)
  have nb: "\<not> bigFoodHit afterTick3" by (simp add: bigFoodHit_eval bite_states demo_states)
  show ?thesis unfolding tick_eq [OF ne smallFoodCheck_afterTick2] using nb by (rule bigFoodCheck_miss)
qed

text \<open>Turning up, left, down and right: the crash.\<close>

lemma frame_climbing: "frame demoRand pressUp 2 afterTick1 = Some climbing"
proof (rule frame_plain)
  show p: "processInput pressUp afterTick1 = afterTick1\<lparr>nextDirection := UP\<rparr>"
    by (simp add: processInput_defs demo_states)
  show "GAME_SPEED (afterTick1\<lparr>nextDirection := UP\<rparr>) \<le> 2 - lastMoveTime afterTick1"
    by (simp add: demo_states)
  have ne: "snake (afterTick1\<lparr>nextDirection := UP\<rparr>) \<noteq> []" by (simp add: demo_states)
  show "moved 2 (afterTick1\<lparr>nextDirection := UP\<rparr>) = climbing"
    by (simp add: moved_eq [OF ne])
       (simp add: demo_states hitsBody_eval hitsWall_eval butlast_replicate MOVE_STRIDE_def)
  show "\<not> smallFoodHit climbing" by (simp add: smallFoodHit_eval demo_states)
  show "\<not> bigFoodHit climbing" by (simp add: bigFoodHit_def demo_states)
qed (simp_all add: demo_states)

lemma frame_turnedLeft: "frame demoRand pressLeft 3 climbing = Some turnedLeft"
proof (rule frame_plain)
  show p: "processInput pressLeft climbing = climbing\<lparr>nextDirection := LEFT\<rparr>"
    by (simp add: processInput_defs demo_states)
  show "GAME_SPEED (climbing\<lparr>nextDirection := LEFT\<rparr>) \<le> 3 - lastMoveTime climbing"
    by (simp add: demo_states)
  have ne: "snake (climbing\<lparr>nextDirection := LEFT\<rparr>) \<noteq> []" by (simp add: demo_states)
  show "moved 3 (climbing\<lparr>nextDirection := LEFT\<rparr>) = turnedLeft"
    by (simp add: moved_eq [OF ne])
       (simp add: demo_states hitsBody_eval hitsWall_eval butlast_replicate MOVE_STRIDE_def)
  show "\<not> smallFoodHit turnedLeft" by (simp add: smallFoodHit_eval demo_states)
  show "\<not> bigFoodHit turnedLeft" by (simp add: bigFoodHit_def demo_states)
qed (simp_all add: demo_states)

lemma frame_descended: "frame demoRand pressDown 4 turnedLeft = Some descended"
proof (rule frame_plain)
  show p: "processInput pressDown turnedLeft = turnedLeft\<lparr>nextDirection := DOWN\<rparr>"
    by (simp add: processInput_defs demo_states)
  show "GAME_SPEED (turnedLeft\<lparr>nextDirection := DOWN\<rparr>) \<le> 4 - lastMoveTime turnedLeft"
    by (simp add: demo_states)
  have ne: "snake (turnedLeft\<lparr>nextDirection := DOWN\<rparr>) \<noteq> []" by (simp add: demo_states)
  show "moved 4 (turnedLeft\<lparr>nextDirection := DOWN\<rparr>) = descended"
    by (simp add: moved_eq [OF ne])
       (simp add: demo_states hitsBody_eval hitsWall_eval butlast_replicate MOVE_STRIDE_def)
  show "\<not> smallFoodHit descended" by (simp add: smallFoodHit_eval demo_states)
  show "\<not> bigFoodHit descended" by (simp add: bigFoodHit_def demo_states)
qed (simp_all add: demo_states)

lemma processInput_descended: "processInput pressRight descended = coiled"
  by (simp add: processInput_defs demo_states)

lemma moved_coiled: "moved 5 coiled = crashed"
proof -
  have ne: "snake coiled \<noteq> []" by (simp add: demo_states)
  show ?thesis
    by (simp add: moved_eq [OF ne])
       (simp add: crashed_def demo_states hitsBody_eval butlast_replicate MOVE_STRIDE_def)
qed

lemma tick_coiled: "tick demoRand 5 coiled = Some crashed"
proof -
  have ne: "snake coiled \<noteq> []" by (simp add: demo_states)
  have "\<not> smallFoodHit crashed"
    by (simp add: smallFoodHit_eval crashed_def demo_states)
  moreover have "\<not> bigFoodHit crashed"
    by (simp add: bigFoodHit_def crashed_def demo_states)
  ultimately show ?thesis using tick_plain [OF ne, of 5 demoRand] by (simp add: moved_coiled)
qed

lemma frame_crashed: "frame demoRand pressRight 5 descended = Some crashed"
proof -
  have "GAME_SPEED (processInput pressRight descended) \<le> 5 - lastMoveTime descended"
    "\<not> gameOver descended"
    by (simp_all add: processInput_descended) (simp_all add: demo_states)
  then show ?thesis
    by (simp add: frame_tick processInput_descended tick_coiled)
qed

lemma reachable_demo:
  "reachable demoRand afterTick1" "reachable demoRand descended" "reachable demoRand crashed"
proof -
  have ng: "\<not> gameOver fresh" "\<not> gameOver afterTick1" "\<not> gameOver climbing"
    "\<not> gameOver turnedLeft" "\<not> gameOver descended"
    by (simp_all add: demo_states)
  show 1: "reachable demoRand afterTick1"
    by (rule reachable_frame [OF reachable_fresh ng(1) frame_afterTick1])
  have 2: "reachable demoRand climbing"
    by (rule reachable_frame [OF 1 ng(2) frame_climbing])
  have 3: "reachable demoRand turnedLeft"
    by (rule reachable_frame [OF 2 ng(3) frame_turnedLeft])
  show 4: "reachable demoRand descended"
    by (rule reachable_frame [OF 3 ng(4) frame_descended])
  show "reachable demoRand crashed"
    by (rule reachable_frame [OF 4 ng(5) frame_crashed])
qed

lemma reachable_afterTick2: "reachable demoRand afterTick2"
proof -
  have p: "processInput noKeys afterTick1 = afterTick1"
    by (rule processInput_noKeys_same) (simp_all add: demo_states)
  have "GAME_SPEED afterTick1 \<le> 2 - lastMoveTime afterTick1" "\<not> gameOver afterTick1"
    by (simp_all add: demo_states)
  then have "frame demoRand noKeys 2 afterTick1 = Some afterTick2"
    by (simp add: frame_tick p tick2)
  with reachable_demo(1) \<open>\<not> gameOver afterTick1\<close> show ?thesis
    by (blast intro: reachable_frame)
qed

lemma run_demo:
  "run demoRand [(noKeys, 1), (pressUp, 2), (pressLeft, 3), (pressDown, 4), (pressRight, 5)] fresh
     = Some (crashed, Some 1)"
proof -
  have "\<not> gameOver afterTick1" "\<not> gameOver climbing" "\<not> gameOver turnedLeft"
    "\<not> gameOver descended" "gameOver crashed" "score crashed = 1"
    by (simp_all add: crashed_def demo_states)
  then show ?thesis
    by (simp add: frame_afterTick1 frame_climbing frame_turnedLeft frame_descended frame_crashed
        report_def)
qed

text \<open>
  After the third small food: up, left, and down onto the snake's own body, within reach
  of the large food. On the snake of that last tick the spawn loop returns wherever it
  starts in the sequence of \<^verbatim>\<open>rand()\<close>: every fifth position sampled has x = 100.
\<close>

lemma frame_afterTick3: "frame demoRand noKeys 3 afterTick2 = Some afterTick3"
proof -
  have p: "processInput noKeys afterTick2 = afterTick2"
    by (rule processInput_noKeys_same) (simp_all add: bite_states demo_states)
  have "GAME_SPEED afterTick2 \<le> 3 - lastMoveTime afterTick2" "\<not> gameOver afterTick2"
    by (simp_all add: bite_states demo_states)
  then show ?thesis by (simp add: frame_tick p tick3)
qed

lemma frame_rising: "frame demoRand pressUp 4 afterTick3 = Some rising"
proof (rule frame_plain)
  show p: "processInput pressUp afterTick3 = afterTick3\<lparr>nextDirection := UP\<rparr>"
    by (simp add: processInput_defs bite_states demo_states)
  show "GAME_SPEED (afterTick3\<lparr>nextDirection := UP\<rparr>) \<le> 4 - lastMoveTime afterTick3"
    by (simp add: bite_states demo_states)
  have ne: "snake (afterTick3\<lparr>nextDirection := UP\<rparr>) \<noteq> []" by (simp add: bite_states)
  show "moved 4 (afterTick3\<lparr>nextDirection := UP\<rparr>) = rising"
    by (simp add: moved_eq [OF ne])
       (simp add: bite_states demo_states hitsBody_eval hitsWall_eval butlast_replicate MOVE_STRIDE_def)
  show "\<not> smallFoodHit rising" by (simp add: smallFoodHit_def bite_states demo_states)
  show "\<not> bigFoodHit rising" by (simp add: bigFoodHit_eval bite_states demo_states)
qed (simp_all add: bite_states demo_states)

lemma frame_leftward: "frame demoRand pressLeft 5 rising = Some leftward"
proof (rule frame_plain)
  show p: "processInput pressLeft rising = rising\<lparr>nextDirection := LEFT\<rparr>"
    by (simp add: processInput_defs bite_states demo_states)
  show "GAME_SPEED (rising\<lparr>nextDirection := LEFT\<rparr>) \<le> 5 - lastMoveTime rising"
    by (simp add: bite_states demo_states)
  have ne: "snake (rising\<lparr>nextDirection := LEFT\<rparr>) \<noteq> []" by (simp add: bite_states)
  show "moved 5 (rising\<lparr>nextDirection := LEFT\<rparr>) = leftward"
    by (simp add: moved_eq [OF ne])
       (simp add: bite_states demo_states hitsBody_eval hitsWall_eval butlast_replicate MOVE_STRIDE_def)
  show "\<not> smallFoodHit leftward" by (simp add: smallFoodHit_def bite_states demo_states)
  show "\<not> bigFoodHit leftward" by (simp add: bigFoodHit_eval bite_states demo_states)
qed (simp_all add: bite_states demo_states)

lemma processInput_leftward: "processInput pressDown leftward = diving"
  by (simp add: processInput_defs bite_states demo_states)

lemma processInput_diving: "processInput pressDown diving = diving"
  by (simp add: processInput_defs bite_states demo_states)

lemma frame_diving: "frame demoRand pressDown (5001 / 1000) leftward = Some diving"
proof -
  have "\<not> GAME_SPEED (processInput pressDown leftward) \<le> 5001 / 1000 - lastMoveTime leftward"
    by (simp add: processInput_leftward) (simp add: bite_states demo_states)
  then show ?thesis by (simp add: frame_idle processInput_leftward)
qed

lemma reachable_diving: "reachable demoRand diving"
proof -
  have ng: "\<not> gameOver afterTick2" "\<not> gameOver afterTick3" "\<not> gameOver rising"
    "\<not> gameOver leftward"
    by (simp_all add: bite_states demo_states)
  have 3: "reachable demoRand afterTick3"
    by (rule reachable_frame [OF reachable_afterTick2 ng(1) frame_afterTick3])
  have 4: "reachable demoRand rising"
    by (rule reachable_frame [OF 3 ng(2) frame_rising])
  have 5: "reachable demoRand leftward"
    by (rule reachable_frame [OF 4 ng(3) frame_leftward])
  show ?thesis
    by (rule reachable_frame [OF 5 ng(4) frame_diving])
qed

lemma moved_diving: "moved 6 diving = struck"
proof -
  have ne: "snake diving \<noteq> []" by (simp add: bite_states)
  show ?thesis
    by (simp add: moved_eq [OF ne])
       (simp add: struck_def bite_states demo_states hitsBody_eval hitsWall_eval butlast_replicate MOVE_STRIDE_def)
qed

lemma tick_diving: "tick demoRand 6 diving = Some lastBite"
proof -
  have ne: "snake diving \<noteq> []" by (simp add: bite_states)
  have s: "smallFoodCheck demoRand (moved 6 diving) = Some struck"
    unfolding moved_diving
    by (simp add: smallFoodCheck_miss smallFoodHit_def struck_def bite_states demo_states)
  have hit: "bigFoodHit struck"
    by (simp add: bigFoodHit_eval struck_def bite_states demo_states)
  have "validPosition (grow 75 (snake struck)) (candidate demoRand 8)"
    by (simp add: grow_eq validPosition_eval demoRand_candidates struck_def demo_states)
  then have sp: "spawnLoop demoRand (grow 75 (snake struck)) (rand_calls struck) = Some ((100, 100), 10)"
    by (simp add: spawnLoop_accept demoRand_candidates struck_def bite_states demo_states)
  show ?thesis
    unfolding tick_eq [OF ne s] bigFoodCheck_hit [OF hit sp]
    by (simp add: struck_def bite_states demo_states grow_eq replicate_add [symmetric])
qed

lemma frame_lastBite: "frame demoRand pressDown 6 diving = Some lastBite"
proof -
  have "GAME_SPEED (processInput pressDown diving) \<le> 6 - lastMoveTime diving" "\<not> gameOver diving"
    by (simp_all add: processInput_diving) (simp_all add: bite_states demo_states)
  then show ?thesis by (simp add: frame_tick processInput_diving tick_diving)
qed

lemma demoRand_far_candidate: "\<exists>j. fst (candidate demoRand (k + 2 * j)) = 100"
proof -
  have "\<exists>j. (k + 2 * j) mod 10 = 8 \<or> (k + 2 * j) mod 10 = 9" by presburger
  then obtain j where "(k + 2 * j) mod 10 = 8 \<or> (k + 2 * j) mod 10 = 9" by blast
  then have "demoRand (k + 2 * j) = 0" by (auto simp: demoRand_def repeating_def)
  then have "fst (candidate demoRand (k + 2 * j)) = 100" by (simp add: candidate_def spawn_consts)
  then show ?thesis by blast
qed

lemma spawn_returns_struck: "spawnLoop demoRand (grow n (snake struck)) k \<noteq> None"
proof -
  obtain j where j: "fst (candidate demoRand (k + 2 * j)) = 100"
    using demoRand_far_candidate by blast
  have ne: "snake struck \<noteq> []" by (simp add: struck_def)
  have far: "\<forall>s \<in> set (snake struck). SQUARE_SIZE \<le> \<bar>fst (position s) - 100\<bar>"
    by (auto simp: struck_def segAt_def SQUARE_SIZE_def)
  have "validPosition (grow n (snake struck)) (candidate demoRand (k + 2 * j))"
    using far by (intro validPosition_far_x) (simp only: set_grow [OF ne] j)
  then show ?thesis by (rule spawnLoop_returns)
qed

text \<open>A pending turn.\<close>

lemma processInput_pressLeft_turningUp: "processInput pressLeft turningUp = turningUp"
  by (simp add: processInput_def inputDirection_def inputCtrl_def inputSpace_def pressLeft_def noKeys_def
      turningUp_def fresh_def globals_def)

lemma tick_turningUp: "tick demoRand 1 turningUp = Some turnedUp"
proof -
  have ne: "snake turningUp \<noteq> []" by (simp add: turningUp_def fresh_def globals_def)
  have m: "moved 1 turningUp = turnedUp"
    by (simp add: moved_eq [OF ne])
       (simp add: turnedUp_def turningUp_def fresh_def globals_def hitsWall_def game_consts)
  have "\<not> smallFoodHit turnedUp"
    by (simp add: smallFoodHit_def turnedUp_def turningUp_def fresh_def globals_def distance_less_eval game_consts)
  moreover have "\<not> bigFoodHit turnedUp"
    by (simp add: bigFoodHit_def turnedUp_def turningUp_def fresh_def globals_def)
  ultimately show ?thesis using tick_plain [OF ne, of 1 demoRand] by (simp add: m)
qed

lemma reachable_turningUp: "reachable demoRand turningUp"
proof -
  have "processInput pressUp fresh = turningUp"
    by (simp add: processInput_def inputDirection_def inputCtrl_def inputSpace_def pressUp_def
        noKeys_def turningUp_def fresh_def globals_def)
  moreover have "\<not> GAME_SPEED (processInput pressUp fresh) \<le> 1 / 1000 - lastMoveTime fresh"
    by (simp add: processInput_def inputDirection_def inputCtrl_def inputSpace_def pressUp_def
        noKeys_def fresh_def globals_def)
  ultimately have "frame demoRand pressUp (1 / 1000) fresh = Some turningUp"
    by (simp add: frame_idle)
  moreover have "\<not> gameOver fresh" by (simp add: fresh_def globals_def)
  ultimately show ?thesis using reachable_fresh by (blast intro: reachable_frame)
qed

subsection \<open>One food on screen\<close>

text \<open>
  Claim C3. In every state of a started game exactly one of the small food and the large
  food is on screen, and every tick (and every frame) keeps it so.
\<close>

theorem exactly_one_food_on_screen:
  "(reachable rand g \<longrightarrow> smallFoodOnScreen g \<noteq> bigFoodOnScreen g) \<and>
   (smallFoodOnScreen g \<noteq> bigFoodOnScreen g \<and> tick rand t g = Some g1 \<longrightarrow>
      smallFoodOnScreen g1 \<noteq> bigFoodOnScreen g1) \<and>
   (smallFoodOnScreen g \<noteq> bigFoodOnScreen g \<and> frame rand ks t g = Some g1 \<longrightarrow>
      smallFoodOnScreen g1 \<noteq> bigFoodOnScreen g1)"
  using reachable_flags tick_flags frame_flags by blast

theorem exactly_one_food_on_screen_witness:
  "reachable demoRand fresh \<and> smallFoodOnScreen fresh \<noteq> bigFoodOnScreen fresh \<and>
   tick demoRand 1 fresh = Some afterTick1 \<and>
   frame demoRand noKeys 1 fresh = Some afterTick1 \<and>
   smallFoodOnScreen afterTick1 \<noteq> bigFoodOnScreen afterTick1"
  using exactly_one_food_on_screen [of demoRand fresh 1 afterTick1 noKeys] reachable_fresh tick1
    frame_afterTick1
  by blast

subsection \<open>The reverse direction\<close>

text \<open>
  Claim C9, amended. When only the arrow of the exact reverse of the current direction is
  pressed, processing the input changes neither the pending nor the current direction.
  The next tick commits the pending direction; so the current direction persists at that
  tick when the pending direction was equal to it, that is, when no earlier turn was
  waiting to be committed.
\<close>

theorem reverse_intent_keeps_pending_direction:
  assumes "arrowOnly (opposite (currentDirection g)) ks"
  shows "nextDirection (processInput ks g) = nextDirection g \<and>
         currentDirection (processInput ks g) = currentDirection g \<and>
         (\<forall>g1. tick rand t (processInput ks g) = Some g1 \<longrightarrow>
               currentDirection g1 = nextDirection g) \<and>
         (\<forall>g1. nextDirection g = currentDirection g \<and> tick rand t (processInput ks g) = Some g1 \<longrightarrow>
               currentDirection g1 = currentDirection g)"
proof -
  have n: "nextDirection (processInput ks g) = nextDirection g"
    by (simp add: processInput_nextDirection inputDirection_reverse [OF assms])
  have c: "currentDirection (processInput ks g) = currentDirection g"
    by (simp add: processInput_frame)
  have t: "currentDirection g1 = nextDirection g" if "tick rand t (processInput ks g) = Some g1" for g1
    using tick_commits_direction [OF that] n by simp
  from n c t show ?thesis by auto
qed

theorem reverse_intent_keeps_pending_direction_witness:
  "arrowOnly (opposite (currentDirection fresh)) pressLeft \<and>
   nextDirection (processInput pressLeft fresh) = RIGHT \<and>
   currentDirection (processInput pressLeft fresh) = RIGHT \<and>
   nextDirection fresh = currentDirection fresh \<and>
   tick demoRand 1 (processInput pressLeft fresh) = Some afterTick1 \<and>
   currentDirection afterTick1 = RIGHT"
proof -
  have a: "arrowOnly (opposite (currentDirection fresh)) pressLeft"
    by (simp add: fresh_def globals_def arrowOnly_def pressLeft_def noKeys_def)
  have p: "processInput pressLeft fresh = fresh"
    by (simp add: processInput_def inputDirection_def inputCtrl_def inputSpace_def pressLeft_def noKeys_def
      fresh_def globals_def)
  have d: "nextDirection fresh = RIGHT" "currentDirection fresh = RIGHT"
    by (simp_all add: fresh_def globals_def)
  have t: "tick demoRand 1 (processInput pressLeft fresh) = Some afterTick1"
    by (simp add: p tick1)
  from reverse_intent_keeps_pending_direction [OF a, of demoRand 1] a d t show ?thesis
    by auto
qed

text \<open>
  The claim as stated (the current direction persists at the next tick) fails when a
  turn is already pending: the current direction is RIGHT, an accepted turn UP is
  waiting, the left arrow is pressed; the tick of that frame turns the snake UP.
\<close>

theorem reverse_intent_with_pending_turn_counterexample:
  "reachable demoRand turningUp \<and>
   currentDirection turningUp = RIGHT \<and> nextDirection turningUp = UP \<and>
   arrowOnly (opposite RIGHT) pressLeft \<and>
   nextDirection (processInput pressLeft turningUp) = UP \<and>
   frame demoRand pressLeft 1 turningUp = Some turnedUp \<and>
   currentDirection turnedUp = UP"
proof -
  have "GAME_SPEED (processInput pressLeft turningUp) \<le> 1 - lastMoveTime turningUp"
    by (simp add: processInput_pressLeft_turningUp) (simp add: turningUp_def fresh_def globals_def)
  moreover have "\<not> gameOver turningUp" by (simp add: turningUp_def fresh_def globals_def)
  ultimately have "frame demoRand pressLeft 1 turningUp = Some turnedUp"
    by (simp add: frame_tick processInput_pressLeft_turningUp tick_turningUp)
  then show ?thesis
    by (simp add: reachable_turningUp processInput_pressLeft_turningUp)
       (simp add: turningUp_def turnedUp_def fresh_def globals_def arrowOnly_def pressLeft_def noKeys_def)
qed

subsection \<open>Game over\<close>




subsection \<open>Food on the fatal tick\<close>

text \<open>
  Claim C10. On a tick in which the wall test or the self-collision test sets the
  game-over flag, the food checks still run. If the fatal head position is within eating
  range of a food on screen, and the spawn loop returns on the snake of that tick, then
  the tick returns, and in the state it returns the game is over, the snake has grown (by
  25 or 75 segments, by 100 when both branches fire), the score has gone up (by 1, 2 or
  3), and the score reported at the end of that frame is the raised one.
\<close>

theorem fatal_tick_returns_grown_state:
  assumes "snake g \<noteq> []"
    and "hitsWall (position (hd (snake (moved t g)))) \<or>
         hitsBody (position (hd (snake (moved t g)))) (tl (snake (moved t g)))"
    and "smallFoodHit (moved t g) \<or> bigFoodHit (moved t g)"
    and "\<forall>n k. spawnLoop rand (grow n (snake (moved t g))) k \<noteq> None"
  shows "\<exists>g1. tick rand t g = Some g1 \<and> gameOver g1 \<and> report g1 = Some (score g1) \<and>
         score g < score g1 \<and> length (snake g) < length (snake g1) \<and>
         (smallFoodHit (moved t g) \<longrightarrow>
            snake g1 = grow 25 (snake (moved t g)) \<and> score g1 = score g + 1 \<or>
            snake g1 = grow 100 (snake (moved t g)) \<and> score g1 = score g + 3) \<and>
         (\<not> smallFoodHit (moved t g) \<longrightarrow>
            snake g1 = grow 75 (snake (moved t g)) \<and> score g1 = score g + 2)"
proof -
  from tick_returns [OF assms(1,4)] obtain g1 where t: "tick rand t g = Some g1" by blast
  then obtain g2 where s: "smallFoodCheck rand (moved t g) = Some g2"
    and b: "bigFoodCheck rand g2 = Some g1"
    by (rule tick_steps)
  have mne: "snake (moved t g) \<noteq> []" using assms(1) by (simp add: moved_snake_eq)
  have "gameOver (moved t g)" using assms(2) by (subst moved_gameOver_iff) simp
  then have over: "gameOver g1" using tick_gameOver [OF t] by simp
  have eff: "score g < score g1 \<and> length (snake g) < length (snake g1) \<and>
         (smallFoodHit (moved t g) \<longrightarrow>
            snake g1 = grow 25 (snake (moved t g)) \<and> score g1 = score g + 1 \<or>
            snake g1 = grow 100 (snake (moved t g)) \<and> score g1 = score g + 3) \<and>
         (\<not> smallFoodHit (moved t g) \<longrightarrow>
            snake g1 = grow 75 (snake (moved t g)) \<and> score g1 = score g + 2)"
  proof (cases "smallFoodHit (moved t g)")
    case True
    note small = True
    from smallFoodCheck_effect(2) [OF s True]
    have g2: "snake g2 = grow 25 (snake (moved t g))" "score g2 = score g + 1"
      by (simp_all add: moved_frame)
    show ?thesis
    proof (cases "bigFoodHit g2")
      case True
      from bigFoodCheck_effect(2) [OF b True] g2 mne have
        "score g1 = score g + 3" "snake g1 = grow 100 (snake (moved t g))"
        by (simp_all add: grow_grow)
      with small show ?thesis by (simp add: length_grow moved_length)
    next
      case False
      from bigFoodCheck_effect(3) [OF b False] g2 have
        "score g1 = score g + 1" "snake g1 = grow 25 (snake (moved t g))"
        by simp_all
      with small show ?thesis by (simp add: length_grow moved_length)
    qed
  next
    case False
    from smallFoodCheck_effect(3) [OF s False] have g2: "g2 = moved t g" .
    with assms(3) False have "bigFoodHit g2" by simp
    from bigFoodCheck_effect(2) [OF b this] g2 have
      "score g1 = score g + 2" "snake g1 = grow 75 (snake (moved t g))"
      by (simp_all add: moved_frame)
    with False show ?thesis by (simp add: length_grow moved_length)
  qed
  from t over eff show ?thesis by (simp add: report_def)
qed

text \<open>
  In the concrete game, five frames after the first tick: the state \<open>diving\<close> is reached
  from the initial state, the game is not over and the large food is out of range. The
  tick at time 6 moves the head onto the body and within 40 of the large food: the snake
  grows from 76 to 151 segments and the reported score is 5 instead of 3.
\<close>

theorem fatal_tick_returns_grown_state_witness:
  "reachable demoRand diving \<and> \<not> gameOver diving \<and> \<not> bigFoodHit diving \<and>
   snake diving \<noteq> [] \<and>
   hitsBody (position (hd (snake (moved 6 diving)))) (tl (snake (moved 6 diving))) \<and>
   bigFoodHit (moved 6 diving) \<and> \<not> smallFoodHit (moved 6 diving) \<and>
   (\<forall>n k. spawnLoop demoRand (grow n (snake (moved 6 diving))) k \<noteq> None) \<and>
   tick demoRand 6 diving = Some lastBite \<and>
   frame demoRand pressDown 6 diving = Some lastBite \<and>
   gameOver lastBite \<and> score diving = 3 \<and> report lastBite = Some 5 \<and>
   length (snake diving) = 76 \<and> snake lastBite = grow 75 (snake (moved 6 diving)) \<and>
   length (snake lastBite) = 151"
proof -
  have i: "\<not> gameOver diving" "\<not> bigFoodHit diving" "snake diving \<noteq> []" "score diving = 3"
    "length (snake diving) = 76"
    by (simp_all add: bigFoodHit_eval bite_states demo_states)
  have b: "hitsBody (position (hd (snake (moved 6 diving)))) (tl (snake (moved 6 diving)))"
    unfolding moved_diving by (simp add: hitsBody_eval struck_def demo_states)
  have h: "bigFoodHit (moved 6 diving)" "\<not> smallFoodHit (moved 6 diving)"
    unfolding moved_diving
    by (simp_all add: bigFoodHit_eval smallFoodHit_def struck_def bite_states demo_states)
  have sp: "\<forall>n k. spawnLoop demoRand (grow n (snake (moved 6 diving))) k \<noteq> None"
    unfolding moved_diving by (simp add: spawn_returns_struck)
  from fatal_tick_returns_grown_state [OF i(3) disjI2 [OF b] disjI2 [OF h(1)] sp] h(2)
  have "gameOver lastBite \<and> report lastBite = Some (score lastBite) \<and>
    snake lastBite = grow 75 (snake (moved 6 diving)) \<and> score lastBite = score diving + 2"
    by (auto simp: tick_diving)
  with i b h sp reachable_diving tick_diving frame_lastBite show ?thesis
    by (simp add: length_grow moved_length)
qed

text \<open>
  A tick that the wall test ends eats nothing in a game: the foods on screen are at least
  40 from the head. So in a game the food checks change the outcome of a fatal tick only
  after a self-collision, as in the concrete game above.
\<close>

lemma wall_tick_eats_nothing:
  assumes "reachable rand g" "hitsWall (position (hd (snake (moved t (processInput ks g)))))"
  shows "tick rand t (processInput ks g) = Some (moved t (processInput ks g))"
proof -
  let ?m = "moved t (processInput ks g)"
  have ne: "snake (processInput ks g) \<noteq> []"
    using reachable_snake_nonempty [OF assms(1)] by (simp add: processInput_frame)
  have box: "foodsInBox ?m"
    using reachable_box [OF assms(1)] by (simp add: foodsInBox_def moved_frame processInput_frame)
  have nn: "(0::real) \<le> SQUARE_SIZE" by (simp add: SQUARE_SIZE_def)
  have big: "\<not> bigFoodHit ?m"
    using box hitsWall_far_from_box [OF assms(2)] by (auto simp: bigFoodHit_def foodsInBox_def)
  have "\<not> distance (position (hd (snake ?m))) (position (smallFood ?m)) < SQUARE_SIZE"
    if "smallFoodOnScreen ?m"
  proof -
    from that box have "inSpawnBox (position (smallFood ?m))" by (simp add: foodsInBox_def)
    from hitsWall_far_from_box [OF assms(2) this] nn show ?thesis by simp
  qed
  then have small: "\<not> smallFoodHit ?m" by (auto simp: smallFoodHit_def)
  from ne small big show ?thesis by (rule tick_plain)
qed

subsection \<open>Speed keys\<close>

text \<open>
  Claim C4 says that pressing space at the baseline makes the interval between ticks
  longer. The code subtracts 0.005 from the interval: from the baseline 0.012 it goes to
  0.007, and a frame 0.01 after the last move, which does not tick at the baseline, does
  tick while space is held.
\<close>

theorem space_key_shortens_tick_interval:
  "GAME_SPEED fresh = 12 / 1000 \<and> game_speed_controller fresh = 12 / 1000 \<and>
   \<not> spacePressed fresh \<and> \<not> ctrlPressed fresh \<and>
   GAME_SPEED (processInput pressSpace fresh) = 7 / 1000 \<and>
   GAME_SPEED (processInput pressSpace fresh) < GAME_SPEED fresh \<and>
   frame demoRand noKeys (1 / 100) fresh = Some fresh \<and>
   frame demoRand pressSpace (1 / 100) fresh = tick demoRand (1 / 100) (processInput pressSpace fresh)"
proof -
  have p: "GAME_SPEED (processInput pressSpace fresh) = 7 / 1000"
    by (simp add: processInput_defs pressSpace_def demo_states)
  have f: "GAME_SPEED fresh = 12 / 1000" "game_speed_controller fresh = 12 / 1000"
    "\<not> spacePressed fresh" "\<not> ctrlPressed fresh" "\<not> gameOver fresh" "lastMoveTime fresh = 0"
    by (simp_all add: demo_states)
  have idle: "frame demoRand noKeys (1 / 100) fresh = Some fresh"
    using f by (simp add: frame_idle processInput_noKeys_fresh)
  have run: "frame demoRand pressSpace (1 / 100) fresh = tick demoRand (1 / 100) (processInput pressSpace fresh)"
    using f by (simp add: frame_tick p)
  from p f idle run show ?thesis by simp
qed

subsection \<open>Both food branches in one tick\<close>

lemma trail_facts:
  "trail \<noteq> []" "hd trail = segAt 650" "length trail = 351"
  by (simp_all add: trail_def hd_append hd_map del: upt_rec_numeral)

lemma trail_segments:
  assumes "s \<in> set trail"
  shows "fst (position s) \<le> 650" "snd (position s) = 300"
  using assms by (auto simp: trail_def segAt_def simp del: upt_rec_numeral)

lemma bugRand_candidates:
  "candidate bugRand 32 = (680, 300)" "candidate bugRand 34 = (100, 100)"
  by (simp_all add: candidate_def bugRand_def repeating_def spawn_consts)

lemma moved_thirdBite:
  "moved 101 thirdBite = thirdBite\<lparr>lastMoveTime := 101, snake := segAt (1305 / 2) # butlast trail\<rparr>"
proof -
  have ne: "snake thirdBite \<noteq> []" by (simp add: thirdBite_def trail_facts)
  have "\<not> hitsBody (1305 / 2, 300) (butlast trail)"
  proof (rule hitsBody_far_x, rule ballI)
    fix s assume "s \<in> set (butlast trail)"
    then have "s \<in> set trail" by (rule in_set_butlastD)
    from trail_segments(1) [OF this] show "MOVE_STRIDE \<le> \<bar>fst (1305 / 2, 300) - fst (position s)\<bar>"
      by (simp add: MOVE_STRIDE_def)
  qed
  then show ?thesis
    by (simp add: moved_eq [OF ne])
       (simp add: thirdBite_def globals_def trail_facts segAt_def hitsWall_eval MOVE_STRIDE_def)
qed

lemma set_moved_trail:
  assumes "s \<in> set (grow n (segAt (1305 / 2) # butlast trail))"
  shows "fst (position s) \<le> 1305 / 2" "snd (position s) = 300"
proof -
  from assms have "s = segAt (1305 / 2) \<or> s \<in> set (butlast trail)"
    by (simp add: set_grow)
  then have "s = segAt (1305 / 2) \<or> s \<in> set trail"
    by (blast dest: in_set_butlastD)
  then show "fst (position s) \<le> 1305 / 2" "snd (position s) = 300"
    using trail_segments [of s] by (auto simp: segAt_def)
qed

lemma hd_moved_trail: "hd (grow n (segAt (1305 / 2) # butlast trail)) = segAt (1305 / 2)"
  by (simp add: hd_grow)

lemma smallFoodCheck_thirdBite: "smallFoodCheck bugRand (moved 101 thirdBite) = Some bitten"
proof -
  let ?m = "thirdBite\<lparr>lastMoveTime := 101, snake := segAt (1305 / 2) # butlast trail\<rparr>"
  have hit: "smallFoodHit ?m"
    by (simp add: smallFoodHit_eval thirdBite_def globals_def segAt_def)
  have cnt: "smallFoodEaten ?m = 2" by (simp add: thirdBite_def)
  have "validPosition (grow 25 (snake ?m)) (candidate bugRand 32)"
  proof (rule validPosition_far_x, rule ballI)
    fix s assume "s \<in> set (grow 25 (snake ?m))"
    then have "s \<in> set (grow 25 (segAt (1305 / 2) # butlast trail))" by simp
    then have "fst (position s) \<le> 1305 / 2" by (rule set_moved_trail)
    then show "SQUARE_SIZE \<le> \<bar>fst (position s) - fst (candidate bugRand 32)\<bar>"
      by (simp add: bugRand_candidates SQUARE_SIZE_def)
  qed
  then have sp: "spawnLoop bugRand (grow 25 (snake ?m)) (rand_calls ?m) = Some ((680, 300), 34)"
    by (simp add: spawnLoop_accept bugRand_candidates thirdBite_def)
  show ?thesis
    unfolding moved_thirdBite smallFoodCheck_hit_third [OF hit cnt sp]
    by (simp add: bitten_def thirdBite_def globals_def)
qed

lemma bigFoodHit_bitten: "bigFoodHit bitten"
  by (simp add: bigFoodHit_eval bitten_def hd_moved_trail) (simp add: segAt_def)

lemma bigFoodCheck_bitten: "bigFoodCheck bugRand bitten = Some swallowed"
proof -
  have "validPosition (grow 75 (snake bitten)) (candidate bugRand 34)"
  proof (rule validPosition_far_y, rule ballI)
    fix s assume "s \<in> set (grow 75 (snake bitten))"
    then have "s \<in> set (grow 25 (segAt (1305 / 2) # butlast trail))"
      by (simp add: bitten_def set_grow grow_eq)
    then have "snd (position s) = 300" by (rule set_moved_trail)
    then show "SQUARE_SIZE \<le> \<bar>snd (position s) - snd (candidate bugRand 34)\<bar>"
      by (simp add: bugRand_candidates SQUARE_SIZE_def)
  qed
  then have sp: "spawnLoop bugRand (grow 75 (snake bitten)) (rand_calls bitten) = Some ((100, 100), 36)"
    by (simp add: spawnLoop_accept bugRand_candidates bitten_def)
  show ?thesis
    unfolding bigFoodCheck_hit [OF bigFoodHit_bitten sp]
    by (simp add: swallowed_def bitten_def thirdBite_def globals_def)
qed

lemma tick_thirdBite: "tick bugRand 101 thirdBite = Some swallowed"
proof -
  have ne: "snake thirdBite \<noteq> []" by (simp add: thirdBite_def trail_facts)
  show ?thesis
    unfolding tick_eq [OF ne smallFoodCheck_thirdBite] by (rule bigFoodCheck_bitten)
qed

lemma smallFoodHit_thirdBite: "smallFoodHit (moved 101 thirdBite)"
  unfolding moved_thirdBite
  by (simp add: smallFoodHit_eval thirdBite_def globals_def segAt_def)

lemma swallowed_facts:
  "score thirdBite = 12" "score swallowed = 15"
  "length (snake thirdBite) = 351" "length (snake swallowed) = 451"
  "smallFoodOnScreen thirdBite" "\<not> bigFoodOnScreen thirdBite" "\<not> gameOver thirdBite"
  "smallFoodEaten thirdBite = 2"
  "smallFoodOnScreen swallowed" "\<not> bigFoodOnScreen swallowed" "smallFoodEaten swallowed = 0"
  "\<not> gameOver swallowed"
  by (simp_all add: swallowed_def bitten_def thirdBite_def globals_def length_grow trail_facts)

text \<open>
  Claim C1 says that a tick never runs both growth branches. In \<open>thirdBite\<close> the tick eats
  the third small food; \<open>spawnFood(true)\<close> accepts (680, 300), which is 20 or more from
  every segment but only 27.5 from the head; the large-food check of the same tick, with
  its range of 40, then eats the large food: the snake grows by 25 and by 75, the score
  by 1 and by 2.
\<close>

theorem both_food_branches_fire_in_one_tick:
  "smallFoodOnScreen thirdBite \<and> \<not> bigFoodOnScreen thirdBite \<and> smallFoodEaten thirdBite = 2 \<and>
   smallFoodHit (moved 101 thirdBite) \<and>
   smallFoodCheck bugRand (moved 101 thirdBite) = Some bitten \<and>
   position (bigFood bitten) = (680, 300) \<and> position (hd (snake bitten)) = (1305 / 2, 300) \<and>
   validPosition (snake bitten) (position (bigFood bitten)) \<and>
   distance (position (hd (snake bitten))) (position (bigFood bitten)) = 55 / 2 \<and>
   bigFoodHit bitten \<and>
   bigFoodCheck bugRand bitten = Some swallowed \<and>
   tick bugRand 101 thirdBite = Some swallowed \<and>
   score swallowed = score thirdBite + 1 + 2 \<and>
   length (snake swallowed) = length (snake thirdBite) + 25 + 75"
proof -
  have "validPosition (snake bitten) (position (bigFood bitten))"
  proof (rule validPosition_far_x, rule ballI)
    fix s assume "s \<in> set (snake bitten)"
    then have "s \<in> set (grow 25 (segAt (1305 / 2) # butlast trail))" by (simp add: bitten_def)
    then have "fst (position s) \<le> 1305 / 2" by (rule set_moved_trail)
    then show "SQUARE_SIZE \<le> \<bar>fst (position s) - fst (position (bigFood bitten))\<bar>"
      by (simp add: bitten_def SQUARE_SIZE_def)
  qed
  moreover have p: "position (bigFood bitten) = (680, 300)" "position (hd (snake bitten)) = (1305 / 2, 300)"
    by (simp_all add: bitten_def hd_moved_trail) (simp add: segAt_def)
  moreover have "distance (position (hd (snake bitten))) (position (bigFood bitten)) = 55 / 2"
  proof -
    have "sqrt ((55 / 2)\<^sup>2) = \<bar>55 / 2\<bar>" by (rule real_sqrt_abs)
    then show ?thesis by (simp add: p distance_def)
  qed
  ultimately show ?thesis
    by (simp add: smallFoodHit_thirdBite smallFoodCheck_thirdBite bigFoodHit_bitten bigFoodCheck_bitten
        tick_thirdBite swallowed_facts)
qed

text \<open>
  Claim C2 says that a tick that eats the small food grows the snake by exactly 25 and
  the score by exactly 1, and that with the third small food the large food is on screen
  and the small one is not. After the same tick from \<open>thirdBite\<close> the snake has grown by
  100, the score by 3, and the small food is on screen again.
\<close>

theorem third_small_food_tick_grows_by_100:
  "\<not> gameOver thirdBite \<and> smallFoodOnScreen thirdBite \<and> smallFoodEaten thirdBite = 2 \<and>
   smallFoodHit (moved 101 thirdBite) \<and>
   tick bugRand 101 thirdBite = Some swallowed \<and>
   length (snake thirdBite) = 351 \<and> length (snake swallowed) = 451 \<and>
   score thirdBite = 12 \<and> score swallowed = 15 \<and>
   \<not> bigFoodOnScreen swallowed \<and> smallFoodOnScreen swallowed"
  by (simp add: smallFoodHit_thirdBite tick_thirdBite swallowed_facts)

end
